theory Spec2Isabelle
  imports Main "HOL-Library.Word" "HOL-Library.Monad_Syntax"
begin

unbundle bit_operations_syntax

section \<open>Host-dependent C behaviour\<close>

text \<open>
  The interpreter is C code that shifts 32-bit values by amounts outside \<open>0..31\<close>,
  converts plain \<open>char\<close> to wider integers, and indexes the register array with a byte
  taken from a register, which can point behind the register struct.  The C standard
  leaves the first and the third undefined and the second to the implementation; the
  compiled program shifts, converts and reads whatever the host gives it, and goes on.
  So all three are parameters of the model: a theorem with a free \<open>h\<close> holds whatever
  the host does there.  \<open>past_registers h i\<close> is the word that the host holds at
  \<open>r[i]\<close> for an index \<open>i\<close> behind the struct.
\<close>

record host =
  shl_out_of_range :: "32 word \<Rightarrow> int \<Rightarrow> 32 word"
  shr_out_of_range :: "32 word \<Rightarrow> int \<Rightarrow> 32 word"
  char_signed :: bool
  past_registers :: "nat \<Rightarrow> 32 word"

text \<open>\<open>x << n\<close> and \<open>x >> n\<close> on \<open>uint32_t\<close>; \<open>n\<close> is the promoted shift count.\<close>

definition shl :: "host \<Rightarrow> 32 word \<Rightarrow> int \<Rightarrow> 32 word" where
  "shl h x n = (if 0 \<le> n \<and> n < 32 then push_bit (nat n) x else shl_out_of_range h x n)"

definition shr :: "host \<Rightarrow> 32 word \<Rightarrow> int \<Rightarrow> 32 word" where
  "shr h x n = (if 0 \<le> n \<and> n < 32 then drop_bit (nat n) x else shr_out_of_range h x n)"

text \<open>
  A 32-bit x86 style host: the shift count is taken modulo 32, \<open>char\<close> is signed.  The
  words behind the register struct are taken to be zero here, one choice among all.
\<close>

definition x86_host :: host where
  "x86_host = \<lparr> shl_out_of_range = (\<lambda>x n. push_bit (nat (n mod 32)) x),
                shr_out_of_range = (\<lambda>x n. drop_bit (nat (n mod 32)) x),
                char_signed = True,
                past_registers = (\<lambda>i. 0) \<rparr>"

section \<open>bits.h\<close>

text \<open>The shift counts of the two rotations are masked to \<open>0..31\<close> by the code itself.\<close>

definition rotl32 :: "32 word \<Rightarrow> 32 word \<Rightarrow> 32 word" where
  "rotl32 n c = (let c' = c AND 31 in push_bit (unat c') n OR drop_bit (unat ((- c') AND 31)) n)"

definition rotr32 :: "32 word \<Rightarrow> 32 word \<Rightarrow> 32 word" where
  "rotr32 n c = (let c' = c AND 31 in drop_bit (unat c') n OR push_bit (unat ((- c') AND 31)) n)"

text \<open>
  \<open>sign_extend(x, b)\<close>: \<open>b\<close> is \<open>unsigned int\<close>, so \<open>b - 1\<close> wraps at \<open>b = 0\<close>; the two
  shifts of \<open>1U\<close> are in range exactly for \<open>1 \<le> b \<le> 31\<close>.  The signed subtraction is
  taken in two's complement.
\<close>

definition sign_extend :: "host \<Rightarrow> 32 word \<Rightarrow> 32 word \<Rightarrow> 32 word" where
  "sign_extend h x b =
     (let m = shl h 1 (uint (b - 1));
          x' = x AND (shl h 1 (uint b) - 1)
      in (x' XOR m) - m)"

section \<open>memory.h\<close>

text \<open>
  \<open>memory_t\<close> is a struct of \<open>char\<close> arrays; the interpreter allocates one and indexes
  it as a flat byte buffer with the guest address itself.
\<close>

definition memory_size :: nat where
  "memory_size = 16384 + 262144 + 32768 + 1022 + 1024 + 98304 + 1024
                 + 33554432 + 33554432 + 33554432 + 65536"

type_synonym memory = "nat \<Rightarrow> 8 word"

text \<open>
  Reads and writes through \<open>cpu->memory[address]\<close> and through the casts
  \<open>*(uint32_t*)&cpu->memory[address]\<close>, \<open>*(uint16_t*)\<close>, \<open>*(int16_t*)\<close>: little-endian,
  no alignment requirement.  An access that leaves the buffer has no defined result
  (\<open>None\<close>).
\<close>

definition read_char :: "memory \<Rightarrow> 32 word \<Rightarrow> 8 word option" where
  "read_char m a = (if unat a < memory_size then Some (m (unat a)) else None)"

definition write_char :: "memory \<Rightarrow> 32 word \<Rightarrow> 8 word \<Rightarrow> memory option" where
  "write_char m a v = (if unat a < memory_size then Some (m(unat a := v)) else None)"

definition read_u16 :: "memory \<Rightarrow> 32 word \<Rightarrow> 16 word option" where
  "read_u16 m a =
     (if unat a + 2 \<le> memory_size
      then Some (ucast (m (unat a)) OR push_bit 8 (ucast (m (unat a + 1))))
      else None)"

definition write_u16 :: "memory \<Rightarrow> 32 word \<Rightarrow> 16 word \<Rightarrow> memory option" where
  "write_u16 m a v =
     (if unat a + 2 \<le> memory_size
      then Some (m(unat a := ucast v, unat a + 1 := ucast (drop_bit 8 v)))
      else None)"

definition read_u32 :: "memory \<Rightarrow> 32 word \<Rightarrow> 32 word option" where
  "read_u32 m a =
     (if unat a + 4 \<le> memory_size
      then Some (ucast (m (unat a)) OR push_bit 8 (ucast (m (unat a + 1)))
                 OR push_bit 16 (ucast (m (unat a + 2))) OR push_bit 24 (ucast (m (unat a + 3))))
      else None)"

definition write_u32 :: "memory \<Rightarrow> 32 word \<Rightarrow> 32 word \<Rightarrow> memory option" where
  "write_u32 m a v =
     (if unat a + 4 \<le> memory_size
      then Some (m(unat a := ucast v, unat a + 1 := ucast (drop_bit 8 v),
                   unat a + 2 := ucast (drop_bit 16 v), unat a + 3 := ucast (drop_bit 24 v)))
      else None)"

text \<open>A \<open>char\<close> converted to \<open>uint32_t\<close>.\<close>

definition char_to_u32 :: "host \<Rightarrow> 8 word \<Rightarrow> 32 word" where
  "char_to_u32 h c = (if char_signed h then scast c else ucast c)"

section \<open>cpu.h: registers and status bits\<close>

record cpu_registers =
  r :: "32 word list"
  sp :: "32 word"
  lr :: "32 word"
  pc :: "32 word"
  cpsr :: "32 word"
  spsr :: "32 word"

record cpu =
  registers :: cpu_registers
  memory :: memory

text \<open>
  The code reaches \<open>sp\<close>, \<open>lr\<close> and \<open>pc\<close> as \<open>r[13]\<close>, \<open>r[14]\<close>, \<open>r[15]\<close>: the struct
  is eighteen consecutive \<open>uint32_t\<close>, the array \<open>r[13]\<close> first.  An index computed from
  a register value can also land on \<open>cpsr\<close> (16) and \<open>spsr\<close> (17); an index of 18 or more
  leaves the struct.  \<open>reg_read\<close> and \<open>reg_write\<close> are the accesses inside the struct,
  \<open>None\<close> outside it; every index that the code takes from a four-bit or three-bit field
  of the instruction, or from a loop counter, is inside.  The array is the list \<open>r\<close>, of
  13 entries in every state of the program.
\<close>

definition reg_read :: "cpu_registers \<Rightarrow> nat \<Rightarrow> 32 word option" where
  "reg_read regs i =
     (if i < 13 then Some (r regs ! i)
      else if i = 13 then Some (sp regs)
      else if i = 14 then Some (lr regs)
      else if i = 15 then Some (pc regs)
      else if i = 16 then Some (cpsr regs)
      else if i = 17 then Some (spsr regs)
      else None)"

text \<open>
  The read \<open>cpu->registers.r[shift_value]\<close> of the two shifters, where \<open>shift_value\<close> is a
  \<open>uint8_t\<close> cut from a register value: any index from 0 to 255.  Inside the struct it
  is the register read; behind the struct it yields the word that the host holds there,
  and the program carries on with it.
\<close>

definition reg_read_any :: "host \<Rightarrow> cpu_registers \<Rightarrow> nat \<Rightarrow> 32 word" where
  "reg_read_any h regs i =
     (case reg_read regs i of Some v \<Rightarrow> v | None \<Rightarrow> past_registers h i)"

definition reg_write :: "cpu_registers \<Rightarrow> nat \<Rightarrow> 32 word \<Rightarrow> cpu_registers option" where
  "reg_write regs i v =
     (if i < 13 then Some (regs\<lparr>r := (r regs)[i := v]\<rparr>)
      else if i = 13 then Some (regs\<lparr>sp := v\<rparr>)
      else if i = 14 then Some (regs\<lparr>lr := v\<rparr>)
      else if i = 15 then Some (regs\<lparr>pc := v\<rparr>)
      else if i = 16 then Some (regs\<lparr>cpsr := v\<rparr>)
      else if i = 17 then Some (regs\<lparr>spsr := v\<rparr>)
      else None)"

text \<open>\<open>(w >> sh) & mask\<close> as a small unsigned number.\<close>

definition field :: "32 word \<Rightarrow> nat \<Rightarrow> 32 word \<Rightarrow> nat" where
  "field w sh m = unat (drop_bit sh w AND m)"

definition ARM_MODE_USER :: nat where
  "ARM_MODE_USER = 0x10"

definition get_cpsr_mode :: "32 word \<Rightarrow> nat" where
  "get_cpsr_mode c = unat (c AND 0x1F)"

definition get_cpsr_negative :: "32 word \<Rightarrow> 32 word" where
  "get_cpsr_negative c = drop_bit 31 c AND 1"

definition set_cpsr_negative :: "cpu_registers \<Rightarrow> 32 word \<Rightarrow> cpu_registers" where
  "set_cpsr_negative regs v = regs\<lparr>cpsr := (cpsr regs AND NOT 0x80000000) OR push_bit 31 (v AND 1)\<rparr>"

definition get_cpsr_zero :: "32 word \<Rightarrow> 32 word" where
  "get_cpsr_zero c = drop_bit 30 c AND 1"

definition set_cpsr_zero :: "cpu_registers \<Rightarrow> 32 word \<Rightarrow> cpu_registers" where
  "set_cpsr_zero regs v = regs\<lparr>cpsr := (cpsr regs AND NOT 0x40000000) OR push_bit 30 (v AND 1)\<rparr>"

definition get_cpsr_carry :: "32 word \<Rightarrow> 32 word" where
  "get_cpsr_carry c = drop_bit 29 c AND 1"

definition set_cpsr_carry :: "cpu_registers \<Rightarrow> 32 word \<Rightarrow> cpu_registers" where
  "set_cpsr_carry regs v = regs\<lparr>cpsr := (cpsr regs AND NOT 0x20000000) OR push_bit 29 (v AND 1)\<rparr>"

definition get_cpsr_overflow :: "32 word \<Rightarrow> 32 word" where
  "get_cpsr_overflow c = drop_bit 28 c AND 1"

definition set_cpsr_overflow :: "cpu_registers \<Rightarrow> 32 word \<Rightarrow> cpu_registers" where
  "set_cpsr_overflow regs v = regs\<lparr>cpsr := (cpsr regs AND NOT 0x10000000) OR push_bit 28 (v AND 1)\<rparr>"

text \<open>
  \<open>cpu_check_condition\<close> returns a C truth value; the model returns whether it is
  non-zero.  The condition is read from bits 31..28 of the second argument.
\<close>

definition cpu_check_condition :: "32 word \<Rightarrow> 32 word \<Rightarrow> bool" where
  "cpu_check_condition c instruction =
     (let cond = field instruction 28 0xF in
      if cond = 0x0 then get_cpsr_zero c \<noteq> 0
      else if cond = 0x1 then get_cpsr_zero c = 0
      else if cond = 0x2 then get_cpsr_carry c \<noteq> 0
      else if cond = 0x3 then get_cpsr_carry c = 0
      else if cond = 0x4 then get_cpsr_negative c \<noteq> 0
      else if cond = 0x5 then get_cpsr_negative c = 0
      else if cond = 0x6 then get_cpsr_overflow c \<noteq> 0
      else if cond = 0x7 then get_cpsr_overflow c = 0
      else if cond = 0x8 then get_cpsr_carry c \<noteq> 0 \<and> get_cpsr_zero c = 0
      else if cond = 0x9 then get_cpsr_carry c = 0 \<or> get_cpsr_zero c \<noteq> 0
      else if cond = 0xA then get_cpsr_negative c = get_cpsr_overflow c
      else if cond = 0xB then get_cpsr_negative c \<noteq> get_cpsr_overflow c
      else if cond = 0xC then get_cpsr_zero c = 0 \<and> get_cpsr_negative c = get_cpsr_overflow c
      else if cond = 0xD then get_cpsr_zero c \<noteq> 0 \<or> get_cpsr_negative c \<noteq> get_cpsr_overflow c
      else if cond = 0xE then True
      else False)"

section \<open>cpu.h: ARM data processing\<close>

text \<open>
  Operand 2 from a register (\<open>i == 0\<close>).  The code stores the \<^emph>\<open>value\<close> of the operand
  register, cut to eight bits, in \<open>shift_value\<close> and then indexes the register file with
  it (\<open>reg_read_any\<close>: the byte can point behind the struct).  \<open>s\<close> and \<open>rd\<close> decide
  whether the shifter writes the carry flag.
\<close>

definition dp_register_operand ::
  "host \<Rightarrow> cpu_registers \<Rightarrow> 32 word \<Rightarrow> nat \<Rightarrow> nat \<Rightarrow> (32 word \<times> cpu_registers) option" where
  "dp_register_operand h regs instruction s rd =
     do {
       v \<leftarrow> reg_read regs (field instruction 0 0xF);
       let shift_value = unat (v AND 0xFF);
       let shift_type = field instruction 5 0x3;
       shift_amount \<leftarrow>
         (if field instruction 4 0x1 \<noteq> 0
          then do { vs \<leftarrow> reg_read regs (field instruction 8 0xF); Some (unat (vs AND 0xFF)) }
          else Some (field instruction 7 0x1F));
       let flags = (s \<noteq> 0 \<and> rd \<noteq> 15);
       if shift_type = 0x0 then
         (if shift_amount > 32
          then Some (0, if flags then set_cpsr_carry regs 0 else regs)
          else do {
            let x = reg_read_any h regs shift_value;
            Some (shl h x (int shift_amount),
                  if flags then set_cpsr_carry regs (shr h x (32 - int shift_amount) AND 0x1)
                  else regs) })
       else if shift_type = 0x1 then
         (if shift_amount > 32
          then Some (0, if flags then set_cpsr_carry regs 0 else regs)
          else do {
            let x = reg_read_any h regs shift_value;
            Some (shr h x (int shift_amount),
                  if flags then set_cpsr_carry regs (shr h x (int shift_amount - 1) AND 0x1)
                  else regs) })
       else if shift_type = 0x2 then
         (if shift_amount \<ge> 32
          then do {
            let x = reg_read_any h regs shift_value;
            Some (sign_extend h (shr h x 31) (word_of_int (32 - int shift_amount)),
                  if flags then set_cpsr_carry regs (shr h x 31 AND 0x1) else regs) }
          else do {
            let x = reg_read_any h regs shift_value;
            Some (sign_extend h (shr h x (int shift_amount)) (word_of_int (32 - int shift_amount)),
                  if flags then set_cpsr_carry regs (shr h x (int shift_amount - 1) AND 0x1)
                  else regs) })
       else
         (if shift_amount = 0
          then do {
            let x = reg_read_any h regs shift_value;
            Some (shr h x 1 OR push_bit 31 (get_cpsr_carry (cpsr regs)),
                  if flags then set_cpsr_carry regs (x AND 0x1) else regs) }
          else do {
            let x = reg_read_any h regs shift_value;
            Some (rotl32 x (of_nat shift_amount),
                  if flags then set_cpsr_carry regs (shr h x (int shift_amount - 1) AND 0x1)
                  else regs) })
     }"

text \<open>Operand 2 as a rotated immediate (\<open>i == 1\<close>).\<close>

definition dp_immediate_operand :: "32 word \<Rightarrow> 32 word" where
  "dp_immediate_operand instruction =
     (let rotate = field instruction 8 0xF;
          imm = instruction AND 0xFF
      in rotr32 imm (of_nat (rotate * 2)))"

text \<open>
  The pair \<open>set_cpsr_zero(.., r[rd] == 0); set_cpsr_negative(.., r[rd] < 0)\<close> that ends
  most cases.  \<open>r[rd]\<close> is \<open>uint32_t\<close>, and so is the word order of HOL: the comparison
  with 0 is unsigned.
\<close>

definition set_zero_negative_of :: "cpu_registers \<Rightarrow> nat \<Rightarrow> cpu_registers option" where
  "set_zero_negative_of regs rd =
     do {
       d \<leftarrow> reg_read regs rd;
       let regs = set_cpsr_zero regs (of_bool (d = 0));
       d \<leftarrow> reg_read regs rd;
       Some (set_cpsr_negative regs (of_bool (d < 0)))
     }"

text \<open>
  The pair \<open>set_cpsr_carry(.., r[rn] >= src2); set_cpsr_overflow(.., (r[rn] ^ src2) &
  (r[rn] ^ r[rd]) & 0x80000000)\<close> of SUB, ADD, ADC and SBC, read after \<open>r[rd]\<close> was written.
\<close>

definition set_carry_overflow_rn :: "cpu_registers \<Rightarrow> nat \<Rightarrow> nat \<Rightarrow> 32 word \<Rightarrow> cpu_registers option" where
  "set_carry_overflow_rn regs rn rd src2 =
     do {
       n \<leftarrow> reg_read regs rn;
       let regs = set_cpsr_carry regs (of_bool (n \<ge> src2));
       n \<leftarrow> reg_read regs rn;
       d \<leftarrow> reg_read regs rd;
       Some (set_cpsr_overflow regs ((n XOR src2) AND (n XOR d) AND 0x80000000))
     }"

text \<open>The same pair with the operands swapped, of RSB and RSC.\<close>

definition set_carry_overflow_src2 :: "cpu_registers \<Rightarrow> nat \<Rightarrow> nat \<Rightarrow> 32 word \<Rightarrow> cpu_registers option" where
  "set_carry_overflow_src2 regs rn rd src2 =
     do {
       n \<leftarrow> reg_read regs rn;
       let regs = set_cpsr_carry regs (of_bool (src2 \<ge> n));
       n \<leftarrow> reg_read regs rn;
       d \<leftarrow> reg_read regs rd;
       Some (set_cpsr_overflow regs ((src2 XOR n) AND (src2 XOR d) AND 0x80000000))
     }"

text \<open>The flags of the comparing opcodes, whose result is a local variable.\<close>

definition set_flags_of_result :: "cpu_registers \<Rightarrow> nat \<Rightarrow> 32 word \<Rightarrow> 32 word \<Rightarrow> cpu_registers option" where
  "set_flags_of_result regs rn src2 result =
     do {
       let regs = set_cpsr_zero regs (of_bool (result = 0));
       let regs = set_cpsr_negative regs (of_bool (result < 0));
       n \<leftarrow> reg_read regs rn;
       let regs = set_cpsr_carry regs (of_bool (n \<ge> src2));
       n \<leftarrow> reg_read regs rn;
       Some (set_cpsr_overflow regs ((n XOR src2) AND (n XOR result) AND 0x80000000))
     }"

text \<open>MSR, in the slot of opcode \<open>0b1001\<close> with \<open>s == 0\<close>.\<close>

definition dp_msr :: "cpu_registers \<Rightarrow> 32 word \<Rightarrow> cpu_registers option" where
  "dp_msr regs instruction =
     (let pd = field instruction 22 0x1;
          rm = field instruction 0 0xF
      in if pd = 0 then
           (if get_cpsr_mode (cpsr regs) = ARM_MODE_USER
            then do {
              v \<leftarrow> reg_read regs rm;
              Some (regs\<lparr>cpsr := (cpsr regs AND NOT 0xF0000000) OR (v AND 0xF0000000)\<rparr>) }
            else do {
              v \<leftarrow> reg_read regs rm;
              Some (regs\<lparr>cpsr := v\<rparr>) })
         else do {
           v \<leftarrow> reg_read regs rm;
           Some (regs\<lparr>spsr := v\<rparr>) })"

text \<open>The switch on the opcode.  The flags are written whatever \<open>s\<close> is.\<close>

definition dp_opcode ::
  "cpu_registers \<Rightarrow> 32 word \<Rightarrow> nat \<Rightarrow> nat \<Rightarrow> nat \<Rightarrow> nat \<Rightarrow> 32 word \<Rightarrow> cpu_registers option" where
  "dp_opcode regs instruction opcode s rn rd src2 =
     (if opcode = 0x0 then do {
        n \<leftarrow> reg_read regs rn;
        regs \<leftarrow> reg_write regs rd (n AND src2);
        set_zero_negative_of regs rd }
      else if opcode = 0x1 then do {
        n \<leftarrow> reg_read regs rn;
        regs \<leftarrow> reg_write regs rd (n XOR src2);
        set_zero_negative_of regs rd }
      else if opcode = 0x2 then do {
        n \<leftarrow> reg_read regs rn;
        regs \<leftarrow> reg_write regs rd (n - src2);
        regs \<leftarrow> set_zero_negative_of regs rd;
        set_carry_overflow_rn regs rn rd src2 }
      else if opcode = 0x3 then do {
        n \<leftarrow> reg_read regs rn;
        regs \<leftarrow> reg_write regs rd (src2 - n);
        regs \<leftarrow> set_zero_negative_of regs rd;
        set_carry_overflow_src2 regs rn rd src2 }
      else if opcode = 0x4 then do {
        n \<leftarrow> reg_read regs rn;
        regs \<leftarrow> reg_write regs rd (n + src2);
        regs \<leftarrow> set_zero_negative_of regs rd;
        set_carry_overflow_rn regs rn rd src2 }
      else if opcode = 0x5 then do {
        n \<leftarrow> reg_read regs rn;
        regs \<leftarrow> reg_write regs rd (n + src2 + get_cpsr_carry (cpsr regs));
        regs \<leftarrow> set_zero_negative_of regs rd;
        set_carry_overflow_rn regs rn rd src2 }
      else if opcode = 0x6 then do {
        n \<leftarrow> reg_read regs rn;
        regs \<leftarrow> reg_write regs rd (n - src2 - of_bool (get_cpsr_carry (cpsr regs) = 0));
        regs \<leftarrow> set_zero_negative_of regs rd;
        set_carry_overflow_rn regs rn rd src2 }
      else if opcode = 0x7 then do {
        n \<leftarrow> reg_read regs rn;
        regs \<leftarrow> reg_write regs rd (src2 - n - of_bool (get_cpsr_carry (cpsr regs) = 0));
        regs \<leftarrow> set_zero_negative_of regs rd;
        set_carry_overflow_src2 regs rn rd src2 }
      else if opcode = 0x8 then do {
        n \<leftarrow> reg_read regs rn;
        let tst_result = n AND src2;
        let regs = set_cpsr_zero regs (of_bool (tst_result = 0));
        Some (set_cpsr_negative regs (of_bool (tst_result < 0))) }
      else if opcode = 0x9 then
        (if s = 0 then dp_msr regs instruction
         else do {
           n \<leftarrow> reg_read regs rn;
           let teq_result = n XOR src2;
           let regs = set_cpsr_zero regs (of_bool (teq_result = 0));
           Some (set_cpsr_negative regs (of_bool (teq_result < 0))) })
      else if opcode = 0xA then do {
        n \<leftarrow> reg_read regs rn;
        set_flags_of_result regs rn src2 (n - src2) }
      else if opcode = 0xB then do {
        n \<leftarrow> reg_read regs rn;
        set_flags_of_result regs rn src2 (n + src2) }
      else if opcode = 0xC then do {
        n \<leftarrow> reg_read regs rn;
        regs \<leftarrow> reg_write regs rd (n OR src2);
        set_zero_negative_of regs rd }
      else if opcode = 0xD then do {
        regs \<leftarrow> reg_write regs rd src2;
        set_zero_negative_of regs rd }
      else if opcode = 0xE then do {
        n \<leftarrow> reg_read regs rn;
        regs \<leftarrow> reg_write regs rd (n AND NOT src2);
        set_zero_negative_of regs rd }
      else do {
        regs \<leftarrow> reg_write regs rd (NOT src2);
        set_zero_negative_of regs rd })"

definition arm_data_processing :: "host \<Rightarrow> cpu_registers \<Rightarrow> 32 word \<Rightarrow> cpu_registers option" where
  "arm_data_processing h regs instruction =
     (let i = field instruction 25 0x1;
          opcode = field instruction 21 0xF;
          s = field instruction 20 0x1;
          rn = field instruction 16 0xF;
          rd = field instruction 12 0xF
      in do {
        (src2, regs) \<leftarrow>
          (if i = 0 then dp_register_operand h regs instruction s rd
           else Some (dp_immediate_operand instruction, regs));
        dp_opcode regs instruction opcode s rn rd src2 })"

text \<open>Branch and Exchange: the first test of instruction type 0.\<close>

definition arm_bx :: "cpu_registers \<Rightarrow> 32 word \<Rightarrow> cpu_registers option" where
  "arm_bx regs instruction =
     (let rn = field instruction 0 0xF in
      do {
        v \<leftarrow> reg_read regs rn;
        if v AND 0x1 \<noteq> 0 then do {
          v \<leftarrow> reg_read regs rn;
          let regs = regs\<lparr>pc := v AND 0xFFFFFFFE\<rparr>;
          let regs = regs\<lparr>pc := pc regs - 2\<rparr>;
          Some (regs\<lparr>cpsr := cpsr regs AND NOT 0x20\<rparr>) }
        else do {
          v \<leftarrow> reg_read regs rn;
          let regs = regs\<lparr>pc := v AND 0xFFFFFFFC\<rparr>;
          let regs = regs\<lparr>pc := pc regs - 4\<rparr>;
          Some (regs\<lparr>cpsr := cpsr regs OR 0x20\<rparr>) }
      })"

section \<open>cpu.h: ARM single data transfer\<close>

text \<open>
  The register offset (\<open>i == 1\<close>): the shifter of the data-processing case once more,
  with the carry writes commented out in the code.
\<close>

definition sdt_register_offset :: "host \<Rightarrow> cpu_registers \<Rightarrow> 32 word \<Rightarrow> 32 word option" where
  "sdt_register_offset h regs instruction =
     do {
       v \<leftarrow> reg_read regs (field instruction 0 0xF);
       let shift_value = unat (v AND 0xFF);
       let shift_type = field instruction 5 0x3;
       shift_amount \<leftarrow>
         (if field instruction 4 0x1 \<noteq> 0
          then do { vs \<leftarrow> reg_read regs (field instruction 8 0xF); Some (unat (vs AND 0xFF)) }
          else Some (field instruction 7 0x1F));
       if shift_type = 0x0 then
         (if shift_amount > 32 then Some 0
          else do { let x = reg_read_any h regs shift_value; Some (shl h x (int shift_amount)) })
       else if shift_type = 0x1 then
         (if shift_amount > 32 then Some 0
          else do { let x = reg_read_any h regs shift_value; Some (shr h x (int shift_amount)) })
       else if shift_type = 0x2 then
         (if shift_amount \<ge> 32
          then do {
            let x = reg_read_any h regs shift_value;
            Some (sign_extend h (shr h x 31) (word_of_int (32 - int shift_amount))) }
          else do {
            let x = reg_read_any h regs shift_value;
            Some (sign_extend h (shr h x (int shift_amount)) (word_of_int (32 - int shift_amount))) })
       else
         (if shift_amount = 0
          then do {
            let x = reg_read_any h regs shift_value;
            Some (shr h x 1 OR push_bit 31 (get_cpsr_carry (cpsr regs))) }
          else do { let x = reg_read_any h regs shift_value; Some (rotl32 x (of_nat shift_amount)) })
     }"

text \<open>
  The transfer itself.  A word is read or written at \<open>address\<close> as it is: the code
  neither aligns the address nor rotates the value.
\<close>

definition sdt_access :: "host \<Rightarrow> cpu \<Rightarrow> nat \<Rightarrow> nat \<Rightarrow> nat \<Rightarrow> 32 word \<Rightarrow> cpu option" where
  "sdt_access h c l b rd address =
     (if l = 1 then
        (if b = 1 then do {
           ch \<leftarrow> read_char (memory c) address;
           regs \<leftarrow> reg_write (registers c) rd (char_to_u32 h ch);
           Some (c\<lparr>registers := regs\<rparr>) }
         else do {
           v \<leftarrow> read_u32 (memory c) address;
           regs \<leftarrow> reg_write (registers c) rd v;
           Some (c\<lparr>registers := regs\<rparr>) })
      else
        (if b = 1 then do {
           v \<leftarrow> reg_read (registers c) rd;
           m \<leftarrow> write_char (memory c) address (ucast v);
           Some (c\<lparr>memory := m\<rparr>) }
         else do {
           v \<leftarrow> reg_read (registers c) rd;
           m \<leftarrow> write_u32 (memory c) address v;
           Some (c\<lparr>memory := m\<rparr>) }))"

text \<open>
  The four steps of the case, in the order of the code: the offset (\<open>i\<close> is bit 25), the
  address of the transfer (the base, moved on by 8 or 12 when it is \<open>r15\<close>, and by the
  offset when pre-indexed), the transfer, and the write-back of the address, post-indexed
  if \<open>p == 0\<close>, to the base register.
\<close>

definition sdt_offset :: "host \<Rightarrow> cpu_registers \<Rightarrow> 32 word \<Rightarrow> 32 word option" where
  "sdt_offset h regs instruction =
     (if field instruction 25 0x1 = 1 then sdt_register_offset h regs instruction
      else Some (instruction AND 0xFFF))"

definition sdt_address :: "cpu_registers \<Rightarrow> 32 word \<Rightarrow> 32 word \<Rightarrow> 32 word option" where
  "sdt_address regs instruction offset =
     (let p = field instruction 24 0x1;
          u = field instruction 23 0x1;
          l = field instruction 20 0x1;
          rn = field instruction 16 0xF
      in do {
        base \<leftarrow> reg_read regs rn;
        let address = (if rn = 15 then (if l = 0 then base + 12 else base + 8) else base);
        Some (if p = 1 then (if u = 1 then address + offset else address - offset) else address)
      })"

definition sdt_writeback :: "cpu \<Rightarrow> 32 word \<Rightarrow> 32 word \<Rightarrow> 32 word \<Rightarrow> cpu option" where
  "sdt_writeback c instruction offset address =
     (let p = field instruction 24 0x1;
          u = field instruction 23 0x1;
          w = field instruction 21 0x1;
          rn = field instruction 16 0xF;
          address =
            (if p = 0 then (if u = 1 then address + offset else address - offset) else address)
      in if w = 1 \<or> p = 0
         then do { regs \<leftarrow> reg_write (registers c) rn address; Some (c\<lparr>registers := regs\<rparr>) }
         else Some c)"

definition arm_single_data_transfer :: "host \<Rightarrow> cpu \<Rightarrow> 32 word \<Rightarrow> cpu option" where
  "arm_single_data_transfer h c instruction =
     (let b = field instruction 22 0x1;
          l = field instruction 20 0x1;
          rd = field instruction 12 0xF
      in do {
        offset \<leftarrow> sdt_offset h (registers c) instruction;
        address \<leftarrow> sdt_address (registers c) instruction offset;
        c \<leftarrow> sdt_access h c l b rd address;
        sdt_writeback c instruction offset address
      })"

section \<open>cpu.h: ARM branch and block data transfer\<close>

definition arm_branch :: "host \<Rightarrow> cpu_registers \<Rightarrow> 32 word \<Rightarrow> cpu_registers" where
  "arm_branch h regs instruction =
     (let l = field instruction 24 0x1;
          offset = instruction AND 0xFFFFFF;
          regs = (if l = 1 then regs\<lparr>lr := pc regs + 4\<rparr> else regs);
          offset = push_bit 2 offset;
          signed_offset = sign_extend h offset 26
      in regs\<lparr>pc := pc regs + (signed_offset + 4)\<rparr>)"

text \<open>
  One turn of the loop over the register list for a listed register \<open>i\<close>: the address is
  stepped before the access when \<open>p == 1\<close> and after it when \<open>p == 0\<close>, by \<open>+4\<close> when
  \<open>u == 1\<close> and by \<open>-4\<close> otherwise.  The result is the new state, the address of the
  access and the address carried to the next turn.
\<close>

definition bdt_transfer ::
  "nat \<Rightarrow> nat \<Rightarrow> nat \<Rightarrow> nat \<Rightarrow> nat \<Rightarrow> cpu \<Rightarrow> 32 word \<Rightarrow> (cpu \<times> 32 word \<times> 32 word) option" where
  "bdt_transfer p u s l i c address =
     (let address = (if p = 1 then (if u = 1 then address + 4 else address - 4) else address) in
      do {
        c \<leftarrow>
          (if l = 1 then do {
             v \<leftarrow> read_u32 (memory c) address;
             regs \<leftarrow> reg_write (registers c) i v;
             let regs = (if i = 15 \<and> s = 1 then regs\<lparr>cpsr := spsr regs\<rparr> else regs);
             Some (c\<lparr>registers := regs\<rparr>) }
           else do {
             v \<leftarrow> reg_read (registers c) i;
             m \<leftarrow> write_u32 (memory c) address v;
             Some (c\<lparr>memory := m\<rparr>) });
        Some (c, address,
              if p = 0 then (if u = 1 then address + 4 else address - 4) else address)
      })"

text \<open>
  The loop \<open>for (int i = 0; i < 16; i++)\<close>, as a recursion over the values of \<open>i\<close> still
  to come.  Besides the state and the final address it returns the list of accesses made,
  register number and address, in the order of the loop; the executor does not use it.
\<close>

fun bdt_loop ::
  "nat \<Rightarrow> nat \<Rightarrow> nat \<Rightarrow> nat \<Rightarrow> 32 word \<Rightarrow> nat list \<Rightarrow> cpu \<Rightarrow> 32 word
   \<Rightarrow> (cpu \<times> 32 word \<times> (nat \<times> 32 word) list) option" where
  "bdt_loop p u s l register_list [] c address = Some (c, address, [])"
| "bdt_loop p u s l register_list (i # rest) c address =
     (if field register_list i 0x1 \<noteq> 0 then
        do {
          (c, accessed, address) \<leftarrow> bdt_transfer p u s l i c address;
          (c, address, trace) \<leftarrow> bdt_loop p u s l register_list rest c address;
          Some (c, address, (i, accessed) # trace)
        }
      else bdt_loop p u s l register_list rest c address)"

definition register_numbers :: "nat list" where
  "register_numbers = [0, 1, 2, 3, 4, 5, 6, 7, 8, 9, 10, 11, 12, 13, 14, 15]"

text \<open>The run of the loop for one LDM/STM instruction.\<close>

definition bdt_run :: "cpu \<Rightarrow> 32 word \<Rightarrow> (cpu \<times> 32 word \<times> (nat \<times> 32 word) list) option" where
  "bdt_run c instruction =
     (let p = field instruction 24 0x1;
          u = field instruction 23 0x1;
          s = field instruction 22 0x1;
          l = field instruction 20 0x1;
          rn = field instruction 16 0xF;
          register_list = instruction AND 0xFFFF
      in do {
        address \<leftarrow> reg_read (registers c) rn;
        bdt_loop p u s l register_list register_numbers c address
      })"

definition arm_block_data_transfer :: "cpu \<Rightarrow> 32 word \<Rightarrow> cpu option" where
  "arm_block_data_transfer c instruction =
     (let p = field instruction 24 0x1;
          w = field instruction 21 0x1;
          rn = field instruction 16 0xF
      in do {
        (c, address, trace) \<leftarrow> bdt_run c instruction;
        if w = 1 \<or> p = 0
        then do { regs \<leftarrow> reg_write (registers c) rn address; Some (c\<lparr>registers := regs\<rparr>) }
        else Some c
      })"

section \<open>cpu.h: the ARM executor\<close>

text \<open>
  The result is the returned \<open>int\<close> and the state left behind; \<open>None\<close> when the
  instruction reads or writes outside the register struct or the memory buffer.  The
  \<open>printf\<close> calls are not modelled.  Instruction type 0 with neither test matching, and
  type 2, leave the switch by \<open>break\<close> and return 1; type 3 returns 0.
\<close>

definition cpu_process_arm_instruction :: "host \<Rightarrow> cpu \<Rightarrow> 32 word \<Rightarrow> (int \<times> cpu) option" where
  "cpu_process_arm_instruction h c instruction =
     (if \<not> cpu_check_condition (cpsr (registers c)) instruction then Some (1, c)
      else
        let instruction_type = field instruction 26 0x3;
            i = field instruction 25 0x1
        in if instruction_type = 0x0 then
             (if instruction AND 0xFFFFFF0 = 0x12FFF10
              then do { regs \<leftarrow> arm_bx (registers c) instruction; Some (1, c\<lparr>registers := regs\<rparr>) }
              else if i = 1 \<or> field instruction 7 0x1 = 0
              then do {
                regs \<leftarrow> arm_data_processing h (registers c) instruction;
                Some (1, c\<lparr>registers := regs\<rparr>) }
              else Some (1, c))
           else if instruction_type = 0x1 then
             do { c \<leftarrow> arm_single_data_transfer h c instruction; Some (1, c) }
           else if instruction_type = 0x2 then
             (if i = 1 then Some (1, c\<lparr>registers := arm_branch h (registers c) instruction\<rparr>)
              else do { c \<leftarrow> arm_block_data_transfer c instruction; Some (1, c) })
           else Some (0, c))"

section \<open>cpu.h: the Thumb executor\<close>

text \<open>
  The Thumb instruction is \<open>uint16_t\<close>; the functions below take it zero-extended, as
  the integer promotion of C leaves it.  Register numbers are three-bit fields.
\<close>

text \<open>
  The four flag writes after the immediate and the ALU forms of Thumb, all read from
  \<open>r[rd]\<close> after it was written: zero and negative from \<open>r[rd]\<close>, carry from
  \<open>r[rd] >= x\<close>, overflow from \<open>(r[rd] ^ x) & (r[rd] ^ (r[rd] - x)) & 0x80000000\<close>.
\<close>

definition thumb_flags_after :: "cpu_registers \<Rightarrow> nat \<Rightarrow> 32 word \<Rightarrow> cpu_registers option" where
  "thumb_flags_after regs rd x =
     do {
       regs \<leftarrow> set_zero_negative_of regs rd;
       d \<leftarrow> reg_read regs rd;
       let regs = set_cpsr_carry regs (of_bool (d \<ge> x));
       d \<leftarrow> reg_read regs rd;
       Some (set_cpsr_overflow regs ((d XOR x) AND (d XOR (d - x)) AND 0x80000000))
     }"

text \<open>The four flag writes of the Thumb comparisons of \<open>r[rd]\<close> with \<open>x\<close>.\<close>

definition thumb_compare :: "cpu_registers \<Rightarrow> nat \<Rightarrow> 32 word \<Rightarrow> cpu_registers option" where
  "thumb_compare regs rd x =
     do {
       d \<leftarrow> reg_read regs rd;
       let regs = set_cpsr_zero regs (of_bool (d = x));
       d \<leftarrow> reg_read regs rd;
       let regs = set_cpsr_negative regs (of_bool (d < x));
       d \<leftarrow> reg_read regs rd;
       let regs = set_cpsr_carry regs (of_bool (d \<ge> x));
       d \<leftarrow> reg_read regs rd;
       Some (set_cpsr_overflow regs ((d XOR x) AND (d XOR (d - x)) AND 0x80000000))
     }"

text \<open>Case \<open>0b000\<close>: shift by immediate, and add/subtract.\<close>

definition thumb_shift_immediate :: "host \<Rightarrow> cpu_registers \<Rightarrow> 32 word \<Rightarrow> cpu_registers option" where
  "thumb_shift_immediate h regs instruction =
     (let opcode = field instruction 11 0x3;
          offset5 = field instruction 6 0x1F;
          rs = field instruction 3 0x7;
          rd = field instruction 0 0x7
      in if opcode = 0x0 then do {
           x \<leftarrow> reg_read regs rs;
           regs \<leftarrow> reg_write regs rd (shl h x (int offset5));
           set_zero_negative_of regs rd }
         else if opcode = 0x1 then do {
           x \<leftarrow> reg_read regs rs;
           regs \<leftarrow> reg_write regs rd (shr h x (int offset5));
           set_zero_negative_of regs rd }
         else if opcode = 0x2 then do {
           x \<leftarrow> reg_read regs rs;
           regs \<leftarrow> reg_write regs rd
                    (sign_extend h (shr h x (int offset5)) (word_of_int (32 - int offset5)));
           set_zero_negative_of regs rd }
         else
           (let i = field instruction 10 0x1;
                op = field instruction 9 0x1;
                rn_or_offset3 = field instruction 6 0x7
            in do {
              operand \<leftarrow> (if i = 0 then reg_read regs rn_or_offset3 else Some (of_nat rn_or_offset3));
              x \<leftarrow> reg_read regs rs;
              regs \<leftarrow> reg_write regs rd (if op = 0 then x + operand else x - operand);
              regs \<leftarrow> set_zero_negative_of regs rd;
              set_carry_overflow_rn regs rs rd operand }))"

text \<open>Case \<open>0b001\<close>: MOV, CMP, ADD, SUB with an eight-bit immediate.\<close>

definition thumb_immediate :: "cpu_registers \<Rightarrow> 32 word \<Rightarrow> cpu_registers option" where
  "thumb_immediate regs instruction =
     (let opcode = field instruction 11 0x3;
          rd = field instruction 8 0x7;
          offset8 = instruction AND 0xFF
      in if opcode = 0x0 then do {
           regs \<leftarrow> reg_write regs rd offset8;
           set_zero_negative_of regs rd }
         else if opcode = 0x1 then thumb_compare regs rd offset8
         else if opcode = 0x2 then do {
           d \<leftarrow> reg_read regs rd;
           regs \<leftarrow> reg_write regs rd (d + offset8);
           thumb_flags_after regs rd offset8 }
         else do {
           d \<leftarrow> reg_read regs rd;
           regs \<leftarrow> reg_write regs rd (d - offset8);
           thumb_flags_after regs rd offset8 })"

text \<open>Case \<open>0b010\<close>, bits 12..10 clear: the ALU operations.\<close>

definition thumb_alu :: "host \<Rightarrow> cpu_registers \<Rightarrow> 32 word \<Rightarrow> cpu_registers option" where
  "thumb_alu h regs instruction =
     (let opcode = field instruction 6 0xF;
          rs = field instruction 3 0x7;
          rd = field instruction 0 0x7
      in do {
        d \<leftarrow> reg_read regs rd;
        x \<leftarrow> reg_read regs rs;
        if opcode = 0x0 then do {
          regs \<leftarrow> reg_write regs rd (d AND x);
          set_zero_negative_of regs rd }
        else if opcode = 0x1 then do {
          regs \<leftarrow> reg_write regs rd (d XOR x);
          set_zero_negative_of regs rd }
        else if opcode = 0x2 then do {
          regs \<leftarrow> reg_write regs rd (shl h d (uint x));
          set_zero_negative_of regs rd }
        else if opcode = 0x3 then do {
          regs \<leftarrow> reg_write regs rd (shr h d (uint x));
          set_zero_negative_of regs rd }
        else if opcode = 0x4 then do {
          regs \<leftarrow> reg_write regs rd (sign_extend h (shr h d (uint x)) (32 - x));
          set_zero_negative_of regs rd }
        else if opcode = 0x5 then do {
          regs \<leftarrow> reg_write regs rd (d + (x + get_cpsr_carry (cpsr regs)));
          x \<leftarrow> reg_read regs rs;
          thumb_flags_after regs rd x }
        else if opcode = 0x6 then do {
          regs \<leftarrow> reg_write regs rd (d - (x - of_bool (get_cpsr_carry (cpsr regs) = 0)));
          x \<leftarrow> reg_read regs rs;
          thumb_flags_after regs rd x }
        else if opcode = 0x7 then do {
          regs \<leftarrow> reg_write regs rd (rotl32 d x);
          set_zero_negative_of regs rd }
        else if opcode = 0x8 then do {
          let regs = set_cpsr_zero regs (of_bool (d AND x = 0));
          Some (set_cpsr_negative regs (of_bool (d AND x < 0))) }
        else if opcode = 0x9 then do {
          regs \<leftarrow> reg_write regs rd (- x);
          regs \<leftarrow> set_zero_negative_of regs rd;
          let regs = set_cpsr_carry regs 0;
          d \<leftarrow> reg_read regs rd;
          Some (set_cpsr_overflow regs (of_bool (d = 0x80000000))) }
        else if opcode = 0xA then thumb_compare regs rd x
        else if opcode = 0xB then thumb_compare regs rd (- x)
        else if opcode = 0xC then do {
          regs \<leftarrow> reg_write regs rd (d OR x);
          set_zero_negative_of regs rd }
        else if opcode = 0xD then do {
          regs \<leftarrow> reg_write regs rd (d * x);
          d \<leftarrow> reg_read regs rd;
          Some (set_cpsr_zero regs (of_bool (d = 0))) }
        else if opcode = 0xE then do {
          regs \<leftarrow> reg_write regs rd (d AND NOT x);
          set_zero_negative_of regs rd }
        else do {
          regs \<leftarrow> reg_write regs rd (NOT x);
          set_zero_negative_of regs rd }
      })"

text \<open>
  Case \<open>0b010\<close>, bit 10 set: the high-register operations and BX.  The code reads the
  register numbers from the three-bit fields alone; \<open>h1\<close> and \<open>h2\<close> are decoded and not
  used.
\<close>

definition thumb_hi_register :: "cpu_registers \<Rightarrow> 32 word \<Rightarrow> cpu_registers option" where
  "thumb_hi_register regs instruction =
     (let opcode = field instruction 8 0x3;
          rs_hs = field instruction 3 0x7;
          rd_hd = field instruction 0 0x7
      in do {
        d \<leftarrow> reg_read regs rd_hd;
        x \<leftarrow> reg_read regs rs_hs;
        if opcode = 0x0 then reg_write regs rd_hd (d + x)
        else if opcode = 0x1 then thumb_compare regs rd_hd x
        else if opcode = 0x2 then reg_write regs rd_hd x
        else if x AND 0x1 \<noteq> 0 then do {
          let regs = regs\<lparr>pc := x AND 0xFFFFFFFE\<rparr>;
          let regs = regs\<lparr>pc := pc regs - 2\<rparr>;
          Some (regs\<lparr>cpsr := cpsr regs AND NOT 0x20\<rparr>) }
        else do {
          let regs = regs\<lparr>pc := x AND 0xFFFFFFFC\<rparr>;
          let regs = regs\<lparr>pc := pc regs - 4\<rparr>;
          Some (regs\<lparr>cpsr := cpsr regs OR 0x20\<rparr>) }
      })"

text \<open>Loads and stores of a sign-extended byte or a halfword at \<open>address\<close>.\<close>

definition load_halfword :: "host \<Rightarrow> cpu \<Rightarrow> nat \<Rightarrow> 32 word \<Rightarrow> cpu option" where
  "load_halfword h c rd address =
     do {
       v \<leftarrow> read_u16 (memory c) address;
       regs \<leftarrow> reg_write (registers c) rd (sign_extend h (scast v) 16);
       Some (c\<lparr>registers := regs\<rparr>)
     }"

definition store_halfword :: "cpu \<Rightarrow> nat \<Rightarrow> 32 word \<Rightarrow> cpu option" where
  "store_halfword c rd address =
     do {
       v \<leftarrow> reg_read (registers c) rd;
       m \<leftarrow> write_u16 (memory c) address (ucast v);
       Some (c\<lparr>memory := m\<rparr>)
     }"

definition thumb_load_store_sign_extended :: "host \<Rightarrow> cpu \<Rightarrow> 32 word \<Rightarrow> cpu option" where
  "thumb_load_store_sign_extended h c instruction =
     (let hf = field instruction 11 0x1;
          s = field instruction 10 0x1;
          ro = field instruction 6 0x7;
          rb = field instruction 3 0x7;
          rd = field instruction 0 0x7
      in do {
        bv \<leftarrow> reg_read (registers c) rb;
        ov \<leftarrow> reg_read (registers c) ro;
        let address = bv + ov;
        if s = 1 then
          (if hf = 1 then load_halfword h c rd address
           else do {
             ch \<leftarrow> read_char (memory c) address;
             regs \<leftarrow> reg_write (registers c) rd (sign_extend h (char_to_u32 h ch) 8);
             Some (c\<lparr>registers := regs\<rparr>) })
        else
          (if hf = 1 then store_halfword c rd address
           else do {
             v \<leftarrow> reg_read (registers c) rd;
             m \<leftarrow> write_char (memory c) address (ucast v);
             Some (c\<lparr>memory := m\<rparr>) })
      })"

text \<open>The whole of case \<open>0b010\<close>.  It has no \<open>break\<close>.\<close>

definition thumb_case_010 :: "host \<Rightarrow> cpu \<Rightarrow> 32 word \<Rightarrow> cpu option" where
  "thumb_case_010 h c instruction =
     (if field instruction 12 0x1 = 0 then
        (if field instruction 11 0x1 = 0 then
           (if field instruction 10 0x1 = 0
            then do { regs \<leftarrow> thumb_alu h (registers c) instruction; Some (c\<lparr>registers := regs\<rparr>) }
            else do { regs \<leftarrow> thumb_hi_register (registers c) instruction; Some (c\<lparr>registers := regs\<rparr>) })
         else
           (let rd = field instruction 8 0x7;
                offset8 = field instruction 0 0xFF
            in do {
              regs \<leftarrow> reg_write (registers c) rd (pc (registers c) + of_nat (offset8 * 4));
              Some (c\<lparr>registers := regs\<rparr>) }))
      else
        (if field instruction 9 0x1 = 0 then
           (let l = field instruction 11 0x1;
                b = field instruction 10 0x1;
                ro = field instruction 6 0x7;
                rb = field instruction 3 0x7;
                rd = field instruction 0 0x7
            in do {
              bv \<leftarrow> reg_read (registers c) rb;
              ov \<leftarrow> reg_read (registers c) ro;
              sdt_access h c l b rd (bv + ov) })
         else thumb_load_store_sign_extended h c instruction))"

text \<open>Case \<open>0b011\<close>: load/store with immediate offset, always scaled by four.\<close>

definition thumb_load_store_immediate :: "host \<Rightarrow> cpu \<Rightarrow> 32 word \<Rightarrow> cpu option" where
  "thumb_load_store_immediate h c instruction =
     (let b = field instruction 12 0x1;
          l = field instruction 11 0x1;
          offset5 = field instruction 6 0x1F;
          rb = field instruction 3 0x7;
          rd = field instruction 0 0x7
      in do {
        bv \<leftarrow> reg_read (registers c) rb;
        sdt_access h c l b rd (bv + of_nat (offset5 * 4))
      })"

text \<open>Case \<open>0b100\<close>: load/store halfword (its \<open>l\<close> is bit 10) and SP-relative load/store.\<close>

definition thumb_case_100 :: "host \<Rightarrow> cpu \<Rightarrow> 32 word \<Rightarrow> cpu option" where
  "thumb_case_100 h c instruction =
     (if field instruction 12 0x1 = 0 then
        (let l = field instruction 10 0x1;
             offset5 = field instruction 6 0x1F;
             rb = field instruction 3 0x7;
             rd = field instruction 0 0x7
         in do {
           bv \<leftarrow> reg_read (registers c) rb;
           let address = bv + of_nat (offset5 * 2);
           if l = 1 then load_halfword h c rd address else store_halfword c rd address })
      else
        (let l = field instruction 11 0x1;
             rd = field instruction 8 0x7;
             offset8 = field instruction 0 0xFF;
             address = sp (registers c) + of_nat (offset8 * 4)
         in if l = 1 then do {
              v \<leftarrow> read_u32 (memory c) address;
              regs \<leftarrow> reg_write (registers c) rd v;
              Some (c\<lparr>registers := regs\<rparr>) }
            else do {
              v \<leftarrow> reg_read (registers c) rd;
              m \<leftarrow> write_u32 (memory c) address v;
              Some (c\<lparr>memory := m\<rparr>) }))"

text \<open>
  The iteration \<open>for (int i = 0; i < 8; i++)\<close> of push/pop and of multiple load/store: every
  listed register is transferred at \<open>address\<close>, which then goes up by four.
\<close>

fun thumb_load_loop :: "32 word \<Rightarrow> nat list \<Rightarrow> cpu \<Rightarrow> 32 word \<Rightarrow> (cpu \<times> 32 word) option" where
  "thumb_load_loop rlist [] c address = Some (c, address)"
| "thumb_load_loop rlist (i # rest) c address =
     (if field rlist i 0x1 \<noteq> 0 then
        do {
          v \<leftarrow> read_u32 (memory c) address;
          regs \<leftarrow> reg_write (registers c) i v;
          thumb_load_loop rlist rest (c\<lparr>registers := regs\<rparr>) (address + 4)
        }
      else thumb_load_loop rlist rest c address)"

fun thumb_store_loop :: "32 word \<Rightarrow> nat list \<Rightarrow> cpu \<Rightarrow> 32 word \<Rightarrow> (cpu \<times> 32 word) option" where
  "thumb_store_loop rlist [] c address = Some (c, address)"
| "thumb_store_loop rlist (i # rest) c address =
     (if field rlist i 0x1 \<noteq> 0 then
        do {
          v \<leftarrow> reg_read (registers c) i;
          m \<leftarrow> write_u32 (memory c) address v;
          thumb_store_loop rlist rest (c\<lparr>memory := m\<rparr>) (address + 4)
        }
      else thumb_store_loop rlist rest c address)"

definition low_register_numbers :: "nat list" where
  "low_register_numbers = [0, 1, 2, 3, 4, 5, 6, 7]"

definition thumb_push_pop :: "cpu \<Rightarrow> 32 word \<Rightarrow> cpu option" where
  "thumb_push_pop c instruction =
     (let l = field instruction 11 0x1;
          r_bit = field instruction 8 0x1;
          rlist = instruction AND 0xFF;
          address = sp (registers c)
      in do {
        (c, address) \<leftarrow>
          (if l = 1 then do {
             (c, address) \<leftarrow> thumb_load_loop rlist low_register_numbers c address;
             if r_bit = 1 then do {
               v \<leftarrow> read_u32 (memory c) address;
               let regs = (registers c)\<lparr>pc := v AND 0xFFFFFFFE\<rparr>;
               let regs = regs\<lparr>cpsr := cpsr regs AND NOT 0x20\<rparr>;
               Some (c\<lparr>registers := regs\<rparr>, address + 4) }
             else Some (c, address) }
           else do {
             (c, address) \<leftarrow> thumb_store_loop rlist low_register_numbers c address;
             if r_bit = 1 then do {
               m \<leftarrow> write_u32 (memory c) address (lr (registers c));
               Some (c\<lparr>memory := m\<rparr>, address + 4) }
             else Some (c, address) });
        Some (c\<lparr>registers := (registers c)\<lparr>sp := address\<rparr>\<rparr>)
      })"

text \<open>
  Case \<open>0b101\<close>: load address, add offset to the stack pointer, push/pop.  The stack
  offset is \<open>offset << 2\<close> on a possibly negative \<open>int32_t\<close>, taken in two's complement.
\<close>

definition thumb_case_101 :: "cpu \<Rightarrow> 32 word \<Rightarrow> cpu option" where
  "thumb_case_101 c instruction =
     (if field instruction 12 0x1 = 0 then
        (let spf = field instruction 11 0x1;
             rd = field instruction 8 0x7;
             offset8 = field instruction 0 0xFF
         in do {
           regs \<leftarrow> reg_write (registers c) rd
                    ((if spf = 0 then pc (registers c) else sp (registers c)) + of_nat (offset8 * 4));
           Some (c\<lparr>registers := regs\<rparr>) })
      else if field instruction 10 0x1 = 0 then
        (let s = field instruction 7 0x1;
             sword7 = instruction AND 0x7F;
             offset = (if s = 0 then sword7 else - sword7)
         in Some (c\<lparr>registers := (registers c)\<lparr>sp := sp (registers c) + push_bit 2 offset\<rparr>\<rparr>))
      else thumb_push_pop c instruction)"

text \<open>
  Case \<open>0b110\<close>: multiple load/store, software interrupt, conditional branch.  The
  branch passes the four-bit condition itself to \<open>cpu_check_condition\<close>, which reads bits
  31..28 of what it is given.
\<close>

definition thumb_case_110 :: "host \<Rightarrow> cpu \<Rightarrow> 32 word \<Rightarrow> cpu option" where
  "thumb_case_110 h c instruction =
     (if field instruction 12 0x1 = 0 then
        (let l = field instruction 11 0x1;
             rb = field instruction 8 0x7;
             rlist = instruction AND 0xFF
         in do {
           address \<leftarrow> reg_read (registers c) rb;
           (c, address) \<leftarrow>
             (if l = 1 then thumb_load_loop rlist low_register_numbers c address
              else thumb_store_loop rlist low_register_numbers c address);
           regs \<leftarrow> reg_write (registers c) rb address;
           Some (c\<lparr>registers := regs\<rparr>) })
      else if field instruction 8 0xF = 0xF then
        do {
          let regs = registers c;
          let regs = regs\<lparr>lr := pc regs + 4\<rparr>;
          let regs = regs\<lparr>spsr := cpsr regs\<rparr>;
          v \<leftarrow> read_u32 (memory c) 0x8;
          let regs = regs\<lparr>pc := v AND 0xFFFFFFFE\<rparr>;
          let regs = regs\<lparr>cpsr := cpsr regs AND NOT 0x1F\<rparr>;
          let regs = regs\<lparr>cpsr := cpsr regs OR 0x13\<rparr>;
          Some (c\<lparr>registers := regs\<rparr>)
        }
      else
        (let cond = field instruction 8 0xF;
             offset8 = field instruction 0 0xFF;
             offset = sign_extend h (of_nat (offset8 * 2)) 9;
             regs = registers c
         in if cpu_check_condition (cpsr regs) (of_nat cond)
            then Some (c\<lparr>registers := regs\<lparr>pc := pc regs + (offset + 4)\<rparr>\<rparr>)
            else Some c))"

text \<open>
  Case \<open>0b111\<close>: unconditional branch and long branch with link.  The unconditional
  branch keeps its eleven-bit offset in a \<open>uint8_t\<close>, which cuts it to eight bits.
\<close>

definition thumb_case_111 :: "host \<Rightarrow> cpu \<Rightarrow> 32 word \<Rightarrow> cpu" where
  "thumb_case_111 h c instruction =
     (let regs = registers c in
      if field instruction 12 0x1 = 0 then
        (let offset11 = (instruction AND 0x7FF) AND 0xFF;
             offset = sign_extend h (push_bit 1 offset11) 12
         in c\<lparr>registers := regs\<lparr>pc := pc regs + (offset + 4)\<rparr>\<rparr>)
      else
        (let hf = field instruction 11 0x1;
             offset11 = instruction AND 0x7FF
         in if hf = 0 then c\<lparr>registers := regs\<lparr>lr := pc regs + push_bit 12 offset11\<rparr>\<rparr>
            else
              (let regs = regs\<lparr>pc := lr regs + push_bit 1 offset11\<rparr>;
                   regs = regs\<lparr>pc := pc regs - 2\<rparr>;
                   regs = regs\<lparr>lr := pc regs + 2\<rparr>;
                   regs = regs\<lparr>lr := lr regs OR 0x1\<rparr>
               in c\<lparr>registers := regs\<rparr>)))"

text \<open>
  The switch on bits 15..13.  Cases \<open>0b000\<close> and \<open>0b010\<close> do not end in \<open>break\<close>: after
  them the body of the next case runs on the same instruction.  Every path returns 1.
\<close>

definition cpu_process_thumb_instruction :: "host \<Rightarrow> cpu \<Rightarrow> 16 word \<Rightarrow> (int \<times> cpu) option" where
  "cpu_process_thumb_instruction h c instruction16 =
     (let instruction = (ucast instruction16 :: 32 word);
          instruction_type = field instruction 13 0x7
      in do {
        c \<leftarrow>
          (if instruction_type = 0x0 then do {
             regs \<leftarrow> thumb_shift_immediate h (registers c) instruction;
             regs \<leftarrow> thumb_immediate regs instruction;
             Some (c\<lparr>registers := regs\<rparr>) }
           else if instruction_type = 0x1 then do {
             regs \<leftarrow> thumb_immediate (registers c) instruction;
             Some (c\<lparr>registers := regs\<rparr>) }
           else if instruction_type = 0x2 then do {
             c \<leftarrow> thumb_case_010 h c instruction;
             thumb_load_store_immediate h c instruction }
           else if instruction_type = 0x3 then thumb_load_store_immediate h c instruction
           else if instruction_type = 0x4 then thumb_case_100 h c instruction
           else if instruction_type = 0x5 then thumb_case_101 c instruction
           else if instruction_type = 0x6 then thumb_case_110 h c instruction
           else Some (thumb_case_111 h c instruction));
        Some (1, c)
      })"

section \<open>cpu.h: the execution loop\<close>

text \<open>What \<open>cpu_run\<close> does before the loop: the registers are cleared, then two bits of CPSR set.\<close>

definition cpu_run_init :: "cpu \<Rightarrow> cpu" where
  "cpu_run_init c =
     (let regs = \<lparr> r = replicate 13 0, sp = 0, lr = 0, pc = 0, cpsr = 0, spsr = 0 \<rparr>;
          regs = regs\<lparr>cpsr := cpsr regs OR 0x20\<rparr>;
          regs = regs\<lparr>cpsr := cpsr regs OR 0x10\<rparr>
      in c\<lparr>registers := regs\<rparr>)"

text \<open>How one turn of the loop ends.\<close>

datatype turn = Next cpu | Break cpu | Return int cpu

text \<open>The two branches of the test on CPSR in the loop body.\<close>

definition cpu_run_arm :: "host \<Rightarrow> cpu \<Rightarrow> turn option" where
  "cpu_run_arm h c =
     do {
       instruction \<leftarrow> read_u32 (memory c) (pc (registers c));
       (ret, c) \<leftarrow> cpu_process_arm_instruction h c instruction;
       if ret = 0 then Some (Return 1 c)
       else Some (Next (c\<lparr>registers := (registers c)\<lparr>pc := pc (registers c) + 4\<rparr>\<rparr>))
     }"

definition cpu_run_thumb :: "host \<Rightarrow> cpu \<Rightarrow> turn option" where
  "cpu_run_thumb h c =
     do {
       instruction \<leftarrow> read_u16 (memory c) (pc (registers c));
       (ret, c) \<leftarrow> cpu_process_thumb_instruction h c instruction;
       if ret = 0 then Some (Return 1 c)
       else Some (Next (c\<lparr>registers := (registers c)\<lparr>pc := pc (registers c) + 2\<rparr>\<rparr>))
     }"

definition cpu_run_dispatch :: "host \<Rightarrow> cpu \<Rightarrow> turn option" where
  "cpu_run_dispatch h c =
     (if cpsr (registers c) AND 0x20 \<noteq> 0 then cpu_run_arm h c else cpu_run_thumb h c)"

text \<open>The loop body: dispatch, then the test for \<open>pc == 0xFFFFFFFF\<close>.\<close>

definition cpu_run_body :: "host \<Rightarrow> cpu \<Rightarrow> turn option" where
  "cpu_run_body h c =
     do {
       t \<leftarrow> cpu_run_dispatch h c;
       Some (case t of
               Next c' \<Rightarrow> if pc (registers c') = 0xFFFFFFFF then Break c' else Next c'
             | other \<Rightarrow> other)
     }"

text \<open>
  The loop \<open>while (pc < sizeof(memory_t))\<close> can run forever, so it takes fuel: the number
  of turns it may make.
\<close>

datatype outcome = Returned int cpu | Undefined | Out_Of_Fuel

fun cpu_run_loop :: "host \<Rightarrow> nat \<Rightarrow> cpu \<Rightarrow> outcome" where
  "cpu_run_loop h 0 c =
     (if unat (pc (registers c)) < memory_size then Out_Of_Fuel else Returned 0 c)"
| "cpu_run_loop h (Suc n) c =
     (if unat (pc (registers c)) < memory_size then
        (case cpu_run_body h c of
           None \<Rightarrow> Undefined
         | Some (Next c') \<Rightarrow> cpu_run_loop h n c'
         | Some (Break c') \<Rightarrow> Returned 0 c'
         | Some (Return v c') \<Rightarrow> Returned v c')
      else Returned 0 c)"

definition cpu_run :: "host \<Rightarrow> nat \<Rightarrow> cpu \<Rightarrow> outcome" where
  "cpu_run h fuel c = cpu_run_loop h fuel (cpu_run_init c)"

section \<open>Machine states used as examples\<close>

definition zero_registers :: cpu_registers where
  "zero_registers =
     \<lparr> r = [0, 0, 0, 0, 0, 0, 0, 0, 0, 0, 0, 0, 0], sp = 0, lr = 0, pc = 0, cpsr = 0, spsr = 0 \<rparr>"

text \<open>All registers and all memory zero, but for bit 5 and the user mode in CPSR.\<close>

definition idle_arm :: cpu where
  "idle_arm = \<lparr> registers = zero_registers\<lparr>cpsr := 0x30\<rparr>, memory = (\<lambda>_. 0) \<rparr>"

definition idle_thumb :: cpu where
  "idle_thumb = \<lparr> registers = zero_registers\<lparr>cpsr := 0x10\<rparr>, memory = (\<lambda>_. 0) \<rparr>"

text \<open>What \<open>cpu_run\<close> leaves of the registers it is given.\<close>

definition reset_registers :: cpu_registers where
  "reset_registers = zero_registers\<lparr>cpsr := 0x30\<rparr>"

text \<open>A state a host might hand to \<open>cpu_run\<close>: entry point, mode, stack and an argument.\<close>

definition seeded :: cpu where
  "seeded =
     \<lparr> registers = \<lparr> r = [5, 0, 0, 0, 0, 0, 0, 0, 0, 0, 0, 0, 0], sp = 0x03007F00, lr = 0,
                      pc = 0x8, cpsr = 0x13, spsr = 0 \<rparr>,
       memory = (\<lambda>_. 0) \<rparr>"

text \<open>The state of the ADDS scenario: r1 = 0x7FFFFFFF, r2 = 1, CPSR = 0x10.\<close>

definition adds_state :: cpu where
  "adds_state =
     \<lparr> registers = zero_registers\<lparr>r := [0, 0x7FFFFFFF, 1, 0, 0, 0, 0, 0, 0, 0, 0, 0, 0], cpsr := 0x10\<rparr>,
       memory = (\<lambda>_. 0) \<rparr>"

definition adds_result :: cpu where
  "adds_result =
     \<lparr> registers = zero_registers\<lparr>r := [0xFFFFFFFE, 0x7FFFFFFF, 1, 0, 0, 0, 0, 0, 0, 0, 0, 0, 0],
                                   cpsr := 0x20000010\<rparr>,
       memory = (\<lambda>_. 0) \<rparr>"

text \<open>States for SUBS: r1 = 0x80000000 before, and the states after two subtractions of 1.\<close>

definition subs_state :: cpu where
  "subs_state =
     \<lparr> registers = zero_registers\<lparr>r := [0, 0x80000000, 0, 0, 0, 0, 0, 0, 0, 0, 0, 0, 0], cpsr := 0x10\<rparr>,
       memory = (\<lambda>_. 0) \<rparr>"

definition subs_result :: cpu where
  "subs_result =
     \<lparr> registers = zero_registers\<lparr>r := [0x7FFFFFFF, 0x80000000, 0, 0, 0, 0, 0, 0, 0, 0, 0, 0, 0],
                                   cpsr := 0x20000010\<rparr>,
       memory = (\<lambda>_. 0) \<rparr>"

definition subs_same_result :: cpu where
  "subs_same_result =
     \<lparr> registers = zero_registers\<lparr>r := [0, 0xFFFFFFFF, 0, 0, 0, 0, 0, 0, 0, 0, 0, 0, 0],
                                   cpsr := 0x20000010\<rparr>,
       memory = (\<lambda>_. 0) \<rparr>"

text \<open>
  User mode with r1 = 0x5F000000, with r1 = 0xF0000000 and with r1 = 0xF00000FF (whose low
  byte, as an index, lies behind the register struct), for MSR CPSR, r1.
\<close>

definition msr_low_state :: cpu where
  "msr_low_state =
     \<lparr> registers = zero_registers\<lparr>r := [0, 0x5F000000, 0, 0, 0, 0, 0, 0, 0, 0, 0, 0, 0], cpsr := 0x10\<rparr>,
       memory = (\<lambda>_. 0) \<rparr>"

definition msr_state :: cpu where
  "msr_state =
     \<lparr> registers = zero_registers\<lparr>r := [0, 0xF0000000, 0, 0, 0, 0, 0, 0, 0, 0, 0, 0, 0], cpsr := 0x10\<rparr>,
       memory = (\<lambda>_. 0) \<rparr>"

definition msr_past_state :: cpu where
  "msr_past_state =
     \<lparr> registers = zero_registers\<lparr>r := [0, 0xF00000FF, 0, 0, 0, 0, 0, 0, 0, 0, 0, 0, 0], cpsr := 0x10\<rparr>,
       memory = (\<lambda>_. 0) \<rparr>"

text \<open>
  BX r0 (0xE12FFF10) at address 0, in the state the loop treats as ARM (bit 5 of CPSR set),
  with a given value in r0.
\<close>

definition bx_state :: "32 word \<Rightarrow> cpu" where
  "bx_state v =
     \<lparr> registers = zero_registers\<lparr>r := [v, 0, 0, 0, 0, 0, 0, 0, 0, 0, 0, 0, 0], cpsr := 0x30\<rparr>,
       memory = (\<lambda>_. 0)(0 := 0x10, 1 := 0xFF, 2 := 0x2F, 3 := 0xE1) \<rparr>"

text \<open>The same values of r0 in the state the loop treats as Thumb.\<close>

definition thumb_bx_state :: "32 word \<Rightarrow> cpu" where
  "thumb_bx_state v =
     \<lparr> registers = zero_registers\<lparr>r := [v, 0, 0, 0, 0, 0, 0, 0, 0, 0, 0, 0, 0], cpsr := 0x10\<rparr>,
       memory = (\<lambda>_. 0) \<rparr>"


text \<open>States for ROR: r1 = 1 for the ARM form, r0 = r1 = 1 for the Thumb form.\<close>

definition ror_state :: cpu where
  "ror_state =
     \<lparr> registers = zero_registers\<lparr>r := [0, 1, 0, 0, 0, 0, 0, 0, 0, 0, 0, 0, 0], cpsr := 0x10\<rparr>,
       memory = (\<lambda>_. 0) \<rparr>"

definition ror_result :: cpu where
  "ror_result =
     \<lparr> registers = zero_registers\<lparr>r := [4, 1, 0, 0, 0, 0, 0, 0, 0, 0, 0, 0, 0], cpsr := 0x10\<rparr>,
       memory = (\<lambda>_. 0) \<rparr>"

definition thumb_ror_state :: cpu where
  "thumb_ror_state =
     \<lparr> registers = zero_registers\<lparr>r := [1, 1, 0, 0, 0, 0, 0, 0, 0, 0, 0, 0, 0], cpsr := 0x10\<rparr>,
       memory = (\<lambda>_. 0) \<rparr>"

definition thumb_ror_result :: cpu where
  "thumb_ror_result =
     \<lparr> registers = zero_registers\<lparr>r := [2, 1, 0, 0, 0, 0, 0, 0, 0, 0, 0, 0, 0], cpsr := 0x10\<rparr>,
       memory = (\<lambda>_. 0)(29 := 2, 30 := 0, 31 := 0, 32 := 0) \<rparr>"

text \<open>A stack at 0x100 and two registers to store, and the state after STMDB sp!, {r0, r1}.\<close>

definition stm_state :: cpu where
  "stm_state =
     \<lparr> registers = zero_registers\<lparr>r := [0xA1A2A3A4, 0xB1B2B3B4, 0, 0, 0, 0, 0, 0, 0, 0, 0, 0, 0],
                                   sp := 0x100, cpsr := 0x30\<rparr>,
       memory = (\<lambda>_. 0) \<rparr>"

definition stm_stored :: cpu where
  "stm_stored =
     \<lparr> registers = zero_registers\<lparr>r := [0xA1A2A3A4, 0xB1B2B3B4, 0, 0, 0, 0, 0, 0, 0, 0, 0, 0, 0],
                                   sp := 0x100, cpsr := 0x30\<rparr>,
       memory = (\<lambda>_. 0)(0xFC := 0xA4, 0xFD := 0xA3, 0xFE := 0xA2, 0xFF := 0xA1,
                           0xF8 := 0xB4, 0xF9 := 0xB3, 0xFA := 0xB2, 0xFB := 0xB1) \<rparr>"

section \<open>Evaluation lemmas\<close>

text \<open>Each flag setter writes one bit of CPSR: bit 0 of its argument.\<close>

lemma push_bit_and_1: "push_bit n ((v :: 32 word) AND 1) = (if odd v then push_bit n 1 else 0)"
  by (simp add: and_one_eq mod_2_eq_odd)

lemma set_cpsr_negative_odd:
  "set_cpsr_negative regs v =
     regs\<lparr>cpsr := (cpsr regs AND NOT 0x80000000) OR (if odd v then 0x80000000 else 0)\<rparr>"
  unfolding set_cpsr_negative_def push_bit_and_1 by simp

lemma set_cpsr_zero_odd:
  "set_cpsr_zero regs v =
     regs\<lparr>cpsr := (cpsr regs AND NOT 0x40000000) OR (if odd v then 0x40000000 else 0)\<rparr>"
  unfolding set_cpsr_zero_def push_bit_and_1 by simp

lemma set_cpsr_carry_odd:
  "set_cpsr_carry regs v =
     regs\<lparr>cpsr := (cpsr regs AND NOT 0x20000000) OR (if odd v then 0x20000000 else 0)\<rparr>"
  unfolding set_cpsr_carry_def push_bit_and_1 by simp

lemma set_cpsr_overflow_odd:
  "set_cpsr_overflow regs v =
     regs\<lparr>cpsr := (cpsr regs AND NOT 0x10000000) OR (if odd v then 0x10000000 else 0)\<rparr>"
  unfolding set_cpsr_overflow_def push_bit_and_1 by simp

lemmas flag_setters =
  set_cpsr_negative_odd set_cpsr_zero_odd set_cpsr_carry_odd set_cpsr_overflow_odd

lemmas flag_getters =
  get_cpsr_negative_def get_cpsr_zero_def get_cpsr_carry_def get_cpsr_overflow_def

lemmas register_access = reg_read_def reg_write_def reg_read_any_def

lemmas example_states = zero_registers_def idle_arm_def idle_thumb_def

text \<open>One turn of the loop from the two idle states.\<close>

lemma idle_arm_run_arm:
  "cpu_run_arm h idle_arm = Some (Next (idle_arm\<lparr>registers := (registers idle_arm)\<lparr>pc := 4\<rparr>\<rparr>))"
  by (simp add: cpu_run_arm_def example_states read_u32_def memory_size_def
      cpu_process_arm_instruction_def cpu_check_condition_def field_def flag_getters)

lemma thumb_shift_immediate_idle:
  "thumb_shift_immediate h (zero_registers\<lparr>cpsr := k\<rparr>) 0 =
     Some (zero_registers\<lparr>cpsr := (k AND NOT 0x40000000 OR 0x40000000) AND NOT 0x80000000\<rparr>)"
  by (simp add: zero_registers_def thumb_shift_immediate_def field_def register_access
      set_zero_negative_of_def flag_setters shl_def)

lemma thumb_immediate_idle:
  "thumb_immediate (zero_registers\<lparr>cpsr := k\<rparr>) 0 =
     Some (zero_registers\<lparr>cpsr := (k AND NOT 0x40000000 OR 0x40000000) AND NOT 0x80000000\<rparr>)"
  by (simp add: zero_registers_def thumb_immediate_def field_def register_access
      set_zero_negative_of_def flag_setters)

lemma thumb_zero_instruction_idle:
  "cpu_process_thumb_instruction h \<lparr> registers = zero_registers\<lparr>cpsr := k\<rparr>, memory = m \<rparr> 0 =
     Some (1, \<lparr> registers = zero_registers\<lparr>cpsr := (k AND NOT 0x40000000 OR 0x40000000) AND NOT 0x80000000\<rparr>,
                memory = m \<rparr>)"
proof -
  have "thumb_immediate (zero_registers\<lparr>cpsr := (k AND NOT 0x40000000 OR 0x40000000) AND NOT 0x80000000\<rparr>) 0 =
        Some (zero_registers\<lparr>cpsr := (k AND NOT 0x40000000 OR 0x40000000) AND NOT 0x80000000\<rparr>)"
    by (simp add: thumb_immediate_idle) (auto simp add: zero_registers_def bit_eq_iff bit_simps)
  then show ?thesis
    by (simp add: cpu_process_thumb_instruction_def field_def thumb_shift_immediate_idle)
qed

lemma idle_arm_run_thumb:
  "cpu_run_thumb h idle_arm =
     Some (Next (idle_arm\<lparr>registers := (registers idle_arm)\<lparr>pc := 2, cpsr := 0x40000030\<rparr>\<rparr>))"
  by (simp add: cpu_run_thumb_def idle_arm_def read_u16_def memory_size_def
      thumb_zero_instruction_idle)
    (simp add: zero_registers_def)

lemma idle_thumb_run_thumb:
  "cpu_run_thumb h idle_thumb =
     Some (Next (idle_thumb\<lparr>registers := (registers idle_thumb)\<lparr>pc := 2, cpsr := 0x40000010\<rparr>\<rparr>))"
  by (simp add: cpu_run_thumb_def idle_thumb_def read_u16_def memory_size_def
      thumb_zero_instruction_idle)
    (simp add: zero_registers_def)

text \<open>A four-bit field of the instruction is a register number inside the struct.\<close>

lemma field_four_bits: "field w sh 0xF < 16"
proof -
  have "drop_bit sh w AND 0xF \<le> 0xF"
    by (rule word_and_le1)
  then show ?thesis
    by (simp add: field_def word_le_nat_alt)
qed

lemma reg_read_inside: "i < 18 \<Longrightarrow> \<exists>v. reg_read regs i = Some v"
  by (simp add: reg_read_def)

lemma reg_read_four_bits: "\<exists>v. reg_read regs (field w sh 0xF) = Some v"
proof -
  from field_four_bits [of w sh] have "field w sh 0xF < 18"
    by simp
  then show ?thesis
    by (rule reg_read_inside)
qed

text \<open>A word written to memory is the word read back from the same address.\<close>

lemma read_after_write_u32:
  assumes "write_u32 m a v = Some m'"
  shows "read_u32 m' a = Some v"
proof -
  from assms have inside: "unat a + 4 \<le> memory_size"
    and m': "m' = m(unat a := ucast v, unat a + 1 := ucast (drop_bit 8 v),
                    unat a + 2 := ucast (drop_bit 16 v), unat a + 3 := ucast (drop_bit 24 v))"
    by (simp_all add: write_u32_def split: if_splits)
  have "(ucast (ucast v :: 8 word) :: 32 word) OR push_bit 8 (ucast (ucast (drop_bit 8 v) :: 8 word))
        OR push_bit 16 (ucast (ucast (drop_bit 16 v) :: 8 word))
        OR push_bit 24 (ucast (ucast (drop_bit 24 v) :: 8 word)) = v"
    apply (rule bit_word_eqI)
    apply (auto simp add: bit_simps)
    subgoal for n by (cases "n < 24") auto
    done
  with inside m' show ?thesis
    by (simp add: read_u32_def)
qed

section \<open>The dispatch of the execution loop\<close>

text \<open>
  Claim C1, as stated: with bit 5 of CPSR set the loop fetches 16 bits at PC for the Thumb
  executor, with bit 5 clear 32 bits for the ARM executor.  In \<open>idle_arm\<close> bit 5 is set,
  and the turn of the loop is the ARM one, which ends with PC = 4 and the flags untouched;
  the Thumb turn would end with PC = 2 and Z set.
\<close>

theorem dispatch_thumb_on_bit5_counterexample:
  "cpsr (registers idle_arm) AND 0x20 \<noteq> 0 \<and>
   cpu_run_dispatch x86_host idle_arm =
     Some (Next (idle_arm\<lparr>registers := (registers idle_arm)\<lparr>pc := 4\<rparr>\<rparr>)) \<and>
   cpu_run_thumb x86_host idle_arm =
     Some (Next (idle_arm\<lparr>registers := (registers idle_arm)\<lparr>pc := 2, cpsr := 0x40000030\<rparr>\<rparr>)) \<and>
   cpu_run_dispatch x86_host idle_arm \<noteq> cpu_run_thumb x86_host idle_arm"
  by (simp add: cpu_run_dispatch_def idle_arm_run_arm idle_arm_run_thumb)
    (simp add: example_states)

text \<open>
  Claim C1, amended.  The code reads bit 5 the other way round: when bit 5 of CPSR is set
  the turn fetches a 32-bit word at PC, hands it to the ARM executor and advances PC by 4;
  when it is clear the turn fetches a 16-bit word at PC, hands it to the Thumb executor
  and advances PC by 2.  Either way the turn returns 1 from \<open>cpu_run\<close> when the executor
  returns 0.
\<close>

theorem dispatch_arm_on_bit5:
  "(cpsr (registers c) AND 0x20 \<noteq> 0 \<longrightarrow>
      cpu_run_dispatch h c =
        do {
          instruction \<leftarrow> read_u32 (memory c) (pc (registers c));
          (ret, c') \<leftarrow> cpu_process_arm_instruction h c instruction;
          if ret = 0 then Some (Return 1 c')
          else Some (Next (c'\<lparr>registers := (registers c')\<lparr>pc := pc (registers c') + 4\<rparr>\<rparr>))
        }) \<and>
   (cpsr (registers c) AND 0x20 = 0 \<longrightarrow>
      cpu_run_dispatch h c =
        do {
          instruction \<leftarrow> read_u16 (memory c) (pc (registers c));
          (ret, c') \<leftarrow> cpu_process_thumb_instruction h c instruction;
          if ret = 0 then Some (Return 1 c')
          else Some (Next (c'\<lparr>registers := (registers c')\<lparr>pc := pc (registers c') + 2\<rparr>\<rparr>))
        })"
  by (simp add: cpu_run_dispatch_def cpu_run_arm_def cpu_run_thumb_def)

theorem dispatch_arm_on_bit5_witness:
  "cpsr (registers idle_arm) AND 0x20 \<noteq> 0 \<and>
   cpu_run_dispatch x86_host idle_arm =
     Some (Next (idle_arm\<lparr>registers := (registers idle_arm)\<lparr>pc := 4\<rparr>\<rparr>)) \<and>
   cpsr (registers idle_thumb) AND 0x20 = 0 \<and>
   cpu_run_dispatch x86_host idle_thumb =
     Some (Next (idle_thumb\<lparr>registers := (registers idle_thumb)\<lparr>pc := 2, cpsr := 0x40000010\<rparr>\<rparr>))"
proof -
  have a: "cpsr (registers idle_arm) AND 0x20 \<noteq> 0"
    by (simp add: example_states)
  have t: "cpsr (registers idle_thumb) AND 0x20 = 0"
    by (simp add: example_states)
  from dispatch_arm_on_bit5 [of idle_arm x86_host] a
  have "cpu_run_dispatch x86_host idle_arm = cpu_run_arm x86_host idle_arm"
    unfolding cpu_run_arm_def by blast
  moreover from dispatch_arm_on_bit5 [of idle_thumb x86_host] t
  have "cpu_run_dispatch x86_host idle_thumb = cpu_run_thumb x86_host idle_thumb"
    unfolding cpu_run_thumb_def by blast
  ultimately show ?thesis
    using a t by (simp add: idle_arm_run_arm idle_thumb_run_thumb)
qed

section \<open>ADD and SUB with flags\<close>

text \<open>
  Claim C2 says that ADDS r0, r1, r2 (0xE0910002) with r1 = 0x7FFFFFFF, r2 = 1 and
  CPSR = 0x10 leaves r0 = 0x80000000, N = 1, Z = 0, C = 0, V = 1.  The code, on any host,
  leaves r0 = 0xFFFFFFFE, N = 0, Z = 0, C = 1, V = 0: the operand is \<open>r[r2]\<close>, the register
  numbered by the value of r2, which is r1; the negative flag is an unsigned comparison
  with 0; the carry is \<open>r[rn] >= src2\<close>; and the overflow setter is given a value whose
  bit 0 is always clear.
\<close>

theorem adds_scenario_result:
  "cpu_process_arm_instruction h adds_state 0xE0910002 = Some (1, adds_result) \<and>
   reg_read (registers adds_result) 0 = Some 0xFFFFFFFE \<and>
   get_cpsr_negative (cpsr (registers adds_result)) = 0 \<and>
   get_cpsr_zero (cpsr (registers adds_result)) = 0 \<and>
   get_cpsr_carry (cpsr (registers adds_result)) = 1 \<and>
   get_cpsr_overflow (cpsr (registers adds_result)) = 0"
proof -
  have "cpu_check_condition (cpsr (registers adds_state)) 0xE0910002"
    by (simp add: cpu_check_condition_def field_def)
  moreover have "arm_data_processing h (registers adds_state) 0xE0910002 =
                 Some (registers adds_result)"
    by (simp add: adds_state_def adds_result_def zero_registers_def arm_data_processing_def
        field_def dp_register_operand_def dp_opcode_def register_access shl_def shr_def
        set_zero_negative_of_def set_carry_overflow_rn_def flag_setters)
  ultimately have "cpu_process_arm_instruction h adds_state 0xE0910002 = Some (1, adds_result)"
    by (simp add: cpu_process_arm_instruction_def field_def)
      (simp add: adds_state_def adds_result_def)
  then show ?thesis
    by (simp add: adds_result_def zero_registers_def register_access flag_getters)
qed

text \<open>
  Claim C3 says that SUB/SUBS of \<open>a\<close> and \<open>b\<close> sets C = (a \<ge> b), Z = (a = b) and
  V = (sign a \<noteq> sign b and sign of the result \<noteq> sign a).  SUBS r0, r1, #1 (0xE2510001)
  with r1 = 0x80000000 gives 0x7FFFFFFF, so V should be 1; the code leaves V = 0.
  SUBS r1, r1, #1 (0xE2511001) with r1 = 0 borrows, so C should be 0; the code compares
  \<open>r[rn]\<close> after it has been overwritten with the result and leaves C = 1.
\<close>

theorem subs_overflow_and_carry_result:
  "cpu_process_arm_instruction h subs_state 0xE2510001 = Some (1, subs_result) \<and>
   reg_read (registers subs_result) 0 = Some 0x7FFFFFFF \<and>
   get_cpsr_overflow (cpsr (registers subs_result)) = 0 \<and>
   cpu_process_arm_instruction h idle_thumb 0xE2511001 = Some (1, subs_same_result) \<and>
   reg_read (registers subs_same_result) 1 = Some 0xFFFFFFFF \<and>
   get_cpsr_carry (cpsr (registers subs_same_result)) = 1"
proof -
  have imm: "dp_immediate_operand 0xE2510001 = 1" "dp_immediate_operand 0xE2511001 = 1"
    by (simp_all add: dp_immediate_operand_def field_def rotr32_def)
  have "cpu_check_condition (cpsr (registers subs_state)) 0xE2510001"
    and "cpu_check_condition (cpsr (registers idle_thumb)) 0xE2511001"
    by (simp_all add: cpu_check_condition_def field_def)
  moreover have "arm_data_processing h (registers subs_state) 0xE2510001 =
                 Some (registers subs_result)"
    by (simp add: subs_state_def subs_result_def zero_registers_def arm_data_processing_def
        field_def imm dp_opcode_def register_access
        set_zero_negative_of_def set_carry_overflow_rn_def flag_setters)
  moreover have "arm_data_processing h (registers idle_thumb) 0xE2511001 =
                 Some (registers subs_same_result)"
    by (simp add: idle_thumb_def subs_same_result_def zero_registers_def arm_data_processing_def
        field_def imm dp_opcode_def register_access
        set_zero_negative_of_def set_carry_overflow_rn_def flag_setters)
  ultimately have "cpu_process_arm_instruction h subs_state 0xE2510001 = Some (1, subs_result)"
    and "cpu_process_arm_instruction h idle_thumb 0xE2511001 = Some (1, subs_same_result)"
    by (simp_all add: cpu_process_arm_instruction_def field_def)
      (simp_all add: subs_state_def subs_result_def idle_thumb_def subs_same_result_def)
  then show ?thesis
    by (simp add: subs_result_def subs_same_result_def zero_registers_def register_access
        flag_getters)
qed

text \<open>
  Two flag writes of the code that never set their flag: the overflow setter is always
  called with a value masked by 0x80000000, whose bit 0 is clear, and the negative
  setter with the unsigned comparison \<open>r[rd] < 0\<close>.
\<close>

lemma overflow_setter_clears:
  "set_cpsr_overflow regs (x AND 0x80000000) = regs\<lparr>cpsr := cpsr regs AND NOT 0x10000000\<rparr>"
  by (simp add: set_cpsr_overflow_odd even_and_iff)

lemma negative_setter_clears:
  "set_cpsr_negative regs (of_bool (d < (0 :: 32 word))) =
     regs\<lparr>cpsr := cpsr regs AND NOT 0x80000000\<rparr>"
  by (simp add: set_cpsr_negative_odd)

section \<open>Branch and exchange\<close>

text \<open>One turn of the loop on BX r0 in the state the loop treats as ARM.\<close>

lemma arm_bx_r0:
  assumes "reg_read regs 0 = Some v"
  shows "arm_bx regs 0xE12FFF10 =
           Some (if v AND 0x1 \<noteq> 0
                 then regs\<lparr>pc := (v AND 0xFFFFFFFE) - 2, cpsr := cpsr regs AND NOT 0x20\<rparr>
                 else regs\<lparr>pc := (v AND 0xFFFFFFFC) - 4, cpsr := cpsr regs OR 0x20\<rparr>)"
  using assms by (simp add: arm_bx_def field_def)

lemma cpu_run_arm_bx_r0:
  assumes fetch: "read_u32 (memory c) (pc (registers c)) = Some 0xE12FFF10"
    and r0: "reg_read (registers c) 0 = Some v"
  shows "cpu_run_arm h c =
           Some (Next (c\<lparr>registers :=
                   (if v AND 0x1 \<noteq> 0
                    then (registers c)\<lparr>pc := (v AND 0xFFFFFFFE) - 2 + 4,
                                       cpsr := cpsr (registers c) AND NOT 0x20\<rparr>
                    else (registers c)\<lparr>pc := (v AND 0xFFFFFFFC) - 4 + 4,
                                       cpsr := cpsr (registers c) OR 0x20\<rparr>)\<rparr>))"
proof -
  have "cpu_process_arm_instruction h c 0xE12FFF10 =
          do { regs \<leftarrow> arm_bx (registers c) 0xE12FFF10; Some (1, c\<lparr>registers := regs\<rparr>) }"
    by (simp add: cpu_process_arm_instruction_def cpu_check_condition_def field_def)
  with fetch show ?thesis
    by (simp add: cpu_run_arm_def arm_bx_r0 [OF r0])
qed

lemma bit5_cleared: "(k AND NOT 0x20) AND 0x20 = (0 :: 32 word)"
  by (simp add: and.assoc)

lemma bit5_set: "(k OR 0x20) AND 0x20 = (0x20 :: 32 word)"
  by (simp add: bit.conj_disj_distrib2)

lemma bx_state_facts:
  "read_u32 (memory (bx_state v)) (pc (registers (bx_state v))) = Some 0xE12FFF10"
  "cpsr (registers (bx_state v)) AND 0x20 \<noteq> 0"
  "reg_read (registers (bx_state v)) 0 = Some v"
  by (simp_all add: bx_state_def zero_registers_def read_u32_def memory_size_def register_access)

text \<open>
  Claim C4, as stated: BX r0 with r0 = 0x08000101 ends the step with PC = 0x08000100 and
  bit 5 of CPSR set.  The step ends with PC = 0x08000102 and bit 5 clear.
\<close>

theorem bx_to_thumb_counterexample:
  "cpu_run_body x86_host (bx_state 0x08000101) =
     Some (Next ((bx_state 0x08000101)\<lparr>registers :=
             (registers (bx_state 0x08000101))\<lparr>pc := 0x08000102, cpsr := 0x10\<rparr>\<rparr>)) \<and>
   (0x08000102 :: 32 word) \<noteq> 0x08000100 \<and>
   (0x10 :: 32 word) AND 0x20 = 0"
proof -
  note facts = bx_state_facts [of "0x08000101"]
  from cpu_run_arm_bx_r0 [OF facts(1) facts(3), of x86_host] show ?thesis
    by (simp add: cpu_run_body_def cpu_run_dispatch_def facts(2))
      (simp add: bx_state_def zero_registers_def)
qed

text \<open>
  Claim C4, amended.  In this code bit 5 of CPSR set means ARM state and clear means Thumb
  state.  In ARM state, executing BX r0 with r0 = 0x08000101 ends the step with bit 5 of
  CPSR clear (Thumb state); executing BX r0 with r0 = 0x08000100 ends the step with
  PC = 0x08000100 and bit 5 of CPSR set (ARM state).
\<close>

theorem bx_interworking:
  assumes "read_u32 (memory c) (pc (registers c)) = Some 0xE12FFF10"
    and "cpsr (registers c) AND 0x20 \<noteq> 0"
  shows "(reg_read (registers c) 0 = Some 0x08000101 \<longrightarrow>
            (\<exists>c'. cpu_run_body h c = Some (Next c') \<and> cpsr (registers c') AND 0x20 = 0)) \<and>
         (reg_read (registers c) 0 = Some 0x08000100 \<longrightarrow>
            (\<exists>c'. cpu_run_body h c = Some (Next c') \<and> pc (registers c') = 0x08000100 \<and>
                  cpsr (registers c') AND 0x20 \<noteq> 0))"
proof (intro conjI impI)
  assume r0: "reg_read (registers c) 0 = Some 0x08000101"
  from cpu_run_arm_bx_r0 [OF assms(1) r0, of h] assms(2) bit5_cleared [of "cpsr (registers c)"]
  show "\<exists>c'. cpu_run_body h c = Some (Next c') \<and> cpsr (registers c') AND 0x20 = 0"
    by (simp add: cpu_run_body_def cpu_run_dispatch_def)
next
  assume r0: "reg_read (registers c) 0 = Some 0x08000100"
  from cpu_run_arm_bx_r0 [OF assms(1) r0, of h] assms(2) bit5_set [of "cpsr (registers c)"]
  show "\<exists>c'. cpu_run_body h c = Some (Next c') \<and> pc (registers c') = 0x08000100 \<and>
             cpsr (registers c') AND 0x20 \<noteq> 0"
    by (simp add: cpu_run_body_def cpu_run_dispatch_def)
qed

theorem bx_interworking_witness:
  "read_u32 (memory (bx_state 0x08000101)) (pc (registers (bx_state 0x08000101))) = Some 0xE12FFF10 \<and>
   cpsr (registers (bx_state 0x08000101)) AND 0x20 \<noteq> 0 \<and>
   reg_read (registers (bx_state 0x08000101)) 0 = Some 0x08000101 \<and>
   (\<exists>c'. cpu_run_body x86_host (bx_state 0x08000101) = Some (Next c') \<and>
         cpsr (registers c') AND 0x20 = 0) \<and>
   read_u32 (memory (bx_state 0x08000100)) (pc (registers (bx_state 0x08000100))) = Some 0xE12FFF10 \<and>
   cpsr (registers (bx_state 0x08000100)) AND 0x20 \<noteq> 0 \<and>
   reg_read (registers (bx_state 0x08000100)) 0 = Some 0x08000100 \<and>
   (\<exists>c'. cpu_run_body x86_host (bx_state 0x08000100) = Some (Next c') \<and>
         pc (registers c') = 0x08000100 \<and> cpsr (registers c') AND 0x20 \<noteq> 0)"
proof -
  note thumb = bx_state_facts [of "0x08000101"]
  note arm = bx_state_facts [of "0x08000100"]
  from bx_interworking [OF thumb(1) thumb(2), of x86_host]
    bx_interworking [OF arm(1) arm(2), of x86_host] thumb arm
  show ?thesis
    by blast
qed

text \<open>
  The Thumb form of BX r0 (0x4700) sits in case \<open>0b010\<close>, which has no \<open>break\<close>: after
  the branch the instruction is decoded once more as a store of r0 at r0 + 112, which for
  both targets of the claim lies outside the memory buffer.
\<close>

lemma thumb_bx_runs_into_store:
  "cpu_process_thumb_instruction h (thumb_bx_state 0x08000101) 0x4700 = None"
  "cpu_process_thumb_instruction h (thumb_bx_state 0x08000100) 0x4700 = None"
proof -
  have hi: "thumb_hi_register (registers (thumb_bx_state 0x08000101)) 0x4700 =
              Some ((registers (thumb_bx_state 0x08000101))\<lparr>pc := 0x080000FE, cpsr := 0x10\<rparr>)"
    "thumb_hi_register (registers (thumb_bx_state 0x08000100)) 0x4700 =
              Some ((registers (thumb_bx_state 0x08000100))\<lparr>pc := 0x080000FC, cpsr := 0x30\<rparr>)"
    by (simp_all add: thumb_hi_register_def field_def thumb_bx_state_def zero_registers_def
        register_access)
  have "thumb_case_010 h (thumb_bx_state 0x08000101) 0x4700 =
          Some ((thumb_bx_state 0x08000101)\<lparr>registers :=
            (registers (thumb_bx_state 0x08000101))\<lparr>pc := 0x080000FE, cpsr := 0x10\<rparr>\<rparr>)"
    by (simp add: thumb_case_010_def field_def hi)
  moreover have "thumb_load_store_immediate h ((thumb_bx_state 0x08000101)\<lparr>registers :=
            (registers (thumb_bx_state 0x08000101))\<lparr>pc := 0x080000FE, cpsr := 0x10\<rparr>\<rparr>) 0x4700 = None"
    by (simp add: thumb_load_store_immediate_def field_def sdt_access_def thumb_bx_state_def
        zero_registers_def register_access write_u32_def memory_size_def)
  ultimately show "cpu_process_thumb_instruction h (thumb_bx_state 0x08000101) 0x4700 = None"
    by (simp add: cpu_process_thumb_instruction_def field_def)
  have "thumb_case_010 h (thumb_bx_state 0x08000100) 0x4700 =
          Some ((thumb_bx_state 0x08000100)\<lparr>registers :=
            (registers (thumb_bx_state 0x08000100))\<lparr>pc := 0x080000FC, cpsr := 0x30\<rparr>\<rparr>)"
    by (simp add: thumb_case_010_def field_def hi)
  moreover have "thumb_load_store_immediate h ((thumb_bx_state 0x08000100)\<lparr>registers :=
            (registers (thumb_bx_state 0x08000100))\<lparr>pc := 0x080000FC, cpsr := 0x30\<rparr>\<rparr>) 0x4700 = None"
    by (simp add: thumb_load_store_immediate_def field_def sdt_access_def thumb_bx_state_def
        zero_registers_def register_access write_u32_def memory_size_def)
  ultimately show "cpu_process_thumb_instruction h (thumb_bx_state 0x08000100) 0x4700 = None"
    by (simp add: cpu_process_thumb_instruction_def field_def)
qed

section \<open>The order of a block data transfer\<close>

lemma field_bit_le_1: "field w sh 0x1 \<le> 1"
proof -
  have "drop_bit sh w AND 1 \<le> 1"
    by (rule word_and_le1)
  then show ?thesis
    by (simp add: field_def word_le_nat_alt)
qed

text \<open>Inside the buffer, four more is four more: the address does not wrap.\<close>

lemma step_up_inside:
  "unat (a :: 32 word) + 4 \<le> memory_size \<Longrightarrow> unat (a + 4) = unat a + 4"
  by (simp add: unat_word_ariths memory_size_def)

lemma step_down_inside:
  assumes "unat ((a :: 32 word) - 4) + 4 \<le> memory_size"
  shows "unat a = unat (a - 4) + 4"
  using step_up_inside [OF assms] by simp

text \<open>What one transfer does to the address.\<close>

lemma bdt_transfer_addresses:
  assumes "bdt_transfer p u s l i c address = Some (c', accessed, carried)"
  shows "accessed = (if p = 1 then (if u = 1 then address + 4 else address - 4) else address)"
    and "carried = (if p = 0 then (if u = 1 then accessed + 4 else accessed - 4) else accessed)"
    and "unat accessed + 4 \<le> memory_size"
  using assms
  by (auto simp add: bdt_transfer_def Let_def read_u32_def write_u32_def
      split: if_splits Option.bind_splits)

lemma sorted_wrt_head:
  "sorted_wrt R xs \<Longrightarrow> y \<in> set xs \<Longrightarrow> y = hd xs \<or> R (hd xs) y"
  by (cases xs) auto

lemma sorted_wrt_two:
  "sorted_wrt R xs \<Longrightarrow> x \<in> set xs \<Longrightarrow> y \<in> set xs \<Longrightarrow> x = y \<or> R x y \<or> R y x"
  by (induction xs) auto

text \<open>
  The accesses of the loop: the first is one step from the start when \<open>p = 1\<close> and at the
  start when \<open>p = 0\<close>; all are inside the buffer; and along the list the register numbers
  go up while the addresses go up for \<open>u = 1\<close> and down otherwise.
\<close>

lemma bdt_loop_trace:
  assumes "p \<le> 1" and "sorted_wrt (<) numbers"
    and "bdt_loop p u s l register_list numbers c address = Some (c', final, trace)"
  shows "(trace \<noteq> [] \<longrightarrow>
            snd (hd trace) = (if p = 1 then (if u = 1 then address + 4 else address - 4) else address)) \<and>
         (\<forall>x \<in> set trace. unat (snd x) + 4 \<le> memory_size \<and> fst x \<in> set numbers) \<and>
         sorted_wrt (\<lambda>x y. fst x < fst y \<and>
                            (if u = 1 then unat (snd x) < unat (snd y)
                             else unat (snd y) < unat (snd x))) trace"
  using assms(2,3)
proof (induction numbers arbitrary: c address c' final trace)
  case Nil
  then show ?case by simp
next
  case (Cons i rest)
  let ?R = "\<lambda>x y. fst x < fst y \<and>
                    (if u = 1 then unat (snd x) < unat (snd y) else unat (snd y) < unat (snd x))"
  from Cons.prems(1) have rest_sorted: "sorted_wrt (<) rest" and above: "\<forall>k \<in> set rest. i < k"
    by simp_all
  show ?case
  proof (cases "field register_list i 0x1 \<noteq> 0")
    case False
    with Cons.prems(2) have "bdt_loop p u s l register_list rest c address = Some (c', final, trace)"
      by simp
    from Cons.IH [OF rest_sorted this] show ?thesis
      by auto
  next
    case True
    with Cons.prems(2) obtain c1 accessed carried trace' where
      transfer: "bdt_transfer p u s l i c address = Some (c1, accessed, carried)"
      and rest: "bdt_loop p u s l register_list rest c1 carried = Some (c', final, trace')"
      and trace: "trace = (i, accessed) # trace'"
      by (auto split: Option.bind_splits)
    note addr = bdt_transfer_addresses [OF transfer]
    note IH = Cons.IH [OF rest_sorted rest]
    from IH have later_inside: "\<forall>x \<in> set trace'. unat (snd x) + 4 \<le> memory_size \<and> fst x \<in> set rest"
      and later_sorted: "sorted_wrt ?R trace'"
      by simp_all
    have next_access: "trace' \<noteq> [] \<Longrightarrow>
        snd (hd trace') = (if u = 1 then accessed + 4 else accessed - 4)"
      using IH addr(2) \<open>p \<le> 1\<close> by (cases "p = 0") auto
    have first_step: "?R (i, accessed) (hd trace')" if "trace' \<noteq> []"
    proof -
      from that have "hd trace' \<in> set trace'"
        by simp
      with later_inside above have inside: "unat (snd (hd trace')) + 4 \<le> memory_size"
        and number: "i < fst (hd trace')"
        by auto
      show ?thesis
      proof (cases "u = 1")
        case True
        with next_access [OF that] step_up_inside [OF addr(3)] number show ?thesis
          by simp
      next
        case False
        with next_access [OF that] have "snd (hd trace') = accessed - 4"
          by simp
        with inside step_down_inside [of accessed] False number show ?thesis
          by simp
      qed
    qed
    have "?R (i, accessed) y" if "y \<in> set trace'" for y
    proof -
      from that have nonempty: "trace' \<noteq> []"
        by auto
      from sorted_wrt_head [OF later_sorted that] first_step [OF nonempty] show ?thesis
        by (auto split: if_splits)
    qed
    with later_sorted later_inside addr(1,3) trace show ?thesis
      by auto
  qed
qed

text \<open>The registers transferred are the listed ones, in the order of the loop.\<close>

lemma bdt_loop_registers:
  "bdt_loop p u s l register_list numbers c address = Some (c', final, trace) \<Longrightarrow>
   map fst trace = filter (\<lambda>i. field register_list i 0x1 \<noteq> 0) numbers"
  by (induction numbers arbitrary: c address c' final trace)
    (auto split: if_splits Option.bind_splits)

lemma register_numbers_sorted: "sorted_wrt (<) register_numbers"
  by (simp add: register_numbers_def)

lemma stmdb_sp_r0_r1:
  "bdt_run stm_state 0xE92D0003 = Some (stm_stored, 0xF8, [(0, 0xFC), (1, 0xF8)])"
  by (simp add: bdt_run_def field_def register_numbers_def bdt_transfer_def stm_state_def
      stm_stored_def zero_registers_def register_access write_u32_def memory_size_def)
    (simp add: fun_eq_iff)

text \<open>
  Claim C5, as stated: whatever P and U are, of two listed registers the lower-numbered one
  is transferred at the lower address.  STMDB sp!, {r0, r1} (0xE92D0003, P = 1, U = 0)
  with SP = 0x100 stores r0 at 0xFC and r1 at 0xF8.
\<close>

theorem block_transfer_ascending_counterexample:
  "map_option (\<lambda>(c', final, trace). trace) (bdt_run stm_state 0xE92D0003) =
     Some [(0, 0xFC), (1, 0xF8)] \<and>
   \<not> (0xFC :: 32 word) < 0xF8"
  by (simp add: stmdb_sp_r0_r1)

text \<open>
  Claim C5, amended.  For every ARM block data transfer that stays inside the memory
  buffer, the registers named in the register list are transferred in ascending
  register-number order, and the address follows the U bit: with U = 1, of two listed
  registers \<open>i < j\<close> the address used for \<open>i\<close> is strictly lower than the one used for
  \<open>j\<close>; with U = 0 it is strictly higher.  P only decides whether the address is stepped
  before or after each transfer.
\<close>

theorem block_transfer_order_follows_u:
  assumes "bdt_run c instruction = Some (c', final, trace)"
  shows "map fst trace =
           filter (\<lambda>i. field (instruction AND 0xFFFF) i 0x1 \<noteq> 0) register_numbers \<and>
         (\<forall>i a j b. (i, a) \<in> set trace \<and> (j, b) \<in> set trace \<and> i < j \<longrightarrow>
            (if field instruction 23 0x1 = 1 then a < b else b < a))"
proof -
  let ?p = "field instruction 24 0x1" and ?u = "field instruction 23 0x1"
  let ?R = "\<lambda>x y. fst x < fst y \<and>
                    (if ?u = 1 then unat (snd x) < unat (snd y) else unat (snd y) < unat (snd x))"
  from assms obtain base where
    loop: "bdt_loop ?p ?u (field instruction 22 0x1) (field instruction 20 0x1)
             (instruction AND 0xFFFF) register_numbers c base = Some (c', final, trace)"
    by (auto simp add: bdt_run_def Let_def split: Option.bind_splits)
  from bdt_loop_trace [OF field_bit_le_1 register_numbers_sorted loop]
  have sorted: "sorted_wrt ?R trace"
    by simp
  have "if ?u = 1 then a < b else b < a"
    if "(i, a) \<in> set trace" and "(j, b) \<in> set trace" and "i < j" for i a j b
    using sorted_wrt_two [OF sorted that(1,2)] that(3)
    by (auto simp add: word_less_nat_alt split: if_splits)
  with bdt_loop_registers [OF loop] show ?thesis
    by blast
qed

theorem block_transfer_order_follows_u_witness:
  "bdt_run stm_state 0xE92D0003 = Some (stm_stored, 0xF8, [(0, 0xFC), (1, 0xF8)]) \<and>
   field 0xE92D0003 23 0x1 = 0 \<and>
   [0, 1] = filter (\<lambda>i. field (0xE92D0003 AND 0xFFFF) i 0x1 \<noteq> 0) register_numbers \<and>
   (0xF8 :: 32 word) < 0xFC"
proof -
  from block_transfer_order_follows_u [OF stmdb_sp_r0_r1]
  have "[0, 1] = filter (\<lambda>i. field (0xE92D0003 AND 0xFFFF) i 0x1 \<noteq> 0) register_numbers"
    and "if field 0xE92D0003 23 0x1 = 1 then (0xFC :: 32 word) < 0xF8 else (0xF8 :: 32 word) < 0xFC"
    by (simp, fastforce)
  moreover have "field 0xE92D0003 23 0x1 = 0"
    by (simp add: field_def)
  ultimately show ?thesis
    using stmdb_sp_r0_r1 by simp
qed

text \<open>
  The address in the list of accesses is the address of the transfer: a stored register is
  read back from it.
\<close>

lemma bdt_store_lands_at_accessed:
  assumes "bdt_transfer p u s 0 i c address = Some (c', accessed, carried)"
  shows "read_u32 (memory c') accessed = reg_read (registers c) i"
proof -
  from assms obtain v m where
    "reg_read (registers c) i = Some v" and "write_u32 (memory c) accessed v = Some m"
    and "c' = c\<lparr>memory := m\<rparr>"
    by (auto simp add: bdt_transfer_def Let_def split: Option.bind_splits if_splits)
  then show ?thesis
    by (simp add: read_after_write_u32)
qed

lemma bdt_load_comes_from_accessed:
  assumes "bdt_transfer p u s 1 i c address = Some (c', accessed, carried)"
    and "i < 16" and "length (r (registers c)) = 13"
  shows "reg_read (registers c') i = read_u32 (memory c) accessed"
  using assms
  by (auto simp add: bdt_transfer_def Let_def register_access
      split: Option.bind_splits if_splits)

text \<open>An LDM/STM that the executor completes has run that loop.\<close>

lemma block_transfer_runs_bdt:
  assumes "cpu_process_arm_instruction h c instruction = Some (ret, c'')"
    and "cpu_check_condition (cpsr (registers c)) instruction"
    and "field instruction 26 0x3 = 0x2" and "field instruction 25 0x1 = 0"
  shows "\<exists>c' final trace. bdt_run c instruction = Some (c', final, trace)"
  using assms
  by (auto simp add: cpu_process_arm_instruction_def arm_block_data_transfer_def Let_def
      split: Option.bind_splits)

section \<open>LDR from an unaligned address\<close>



lemma sdt_register_offset_total: "\<exists>offset. sdt_register_offset h regs instruction = Some offset"
proof -
  from reg_read_four_bits [of regs instruction 0] obtain v where
    v: "reg_read regs (field instruction 0 0xF) = Some v" ..
  from reg_read_four_bits [of regs instruction 8] obtain vs where
    vs: "reg_read regs (field instruction 8 0xF) = Some vs" ..
  from v vs show ?thesis
    by (simp add: sdt_register_offset_def Let_def)
qed

lemma sdt_offset_total: "\<exists>offset. sdt_offset h regs instruction = Some offset"
  using sdt_register_offset_total [of h regs instruction] by (simp add: sdt_offset_def)

lemma sdt_address_total: "\<exists>address. sdt_address regs instruction offset = Some address"
proof -
  from reg_read_four_bits [of regs instruction 16] obtain base where
    "reg_read regs (field instruction 16 0xF) = Some base" ..
  then show ?thesis
    by (simp add: sdt_address_def Let_def)
qed










text \<open>
  LDR r0, [r0], #4 is 0xE4900004: the base is also the destination, and the post-indexed
  write-back comes after the load, so r0 ends as the address plus 4 and the loaded word
  is gone.
\<close>

lemma ldr_base_is_destination:
  assumes "reg_read (registers c) 0 = Some a" and "read_u32 (memory c) a = Some w"
  shows "cpu_process_arm_instruction h c 0xE4900004 =
           Some (1, c\<lparr>registers := (registers c)\<lparr>r := (r (registers c))[0 := a + 4]\<rparr>\<rparr>)"
  using assms
  by (simp add: cpu_process_arm_instruction_def cpu_check_condition_def field_def
      arm_single_data_transfer_def sdt_offset_def sdt_address_def sdt_access_def
      sdt_writeback_def reg_write_def)




section \<open>ROR\<close>

text \<open>
  Claim C7 says that ROR by \<open>n\<close>, \<open>1 \<le> n \<le> 31\<close>, yields the rotation to the right by
  \<open>n\<close>, in the ARM register operand and in the Thumb ALU operation.  Both call
  \<open>rotl32\<close>.  With r1 = 1, MOVS r0, r1, ROR #2 (0xE1B00161) leaves r0 = 4, where the
  rotation of 1 to the right by two is 0x40000000; MOVS r0, r1, ROR #1 (0xE1B000E1) has
  bit 7 set, fails the test \<open>i == 1 || bit 7 == 0\<close> and changes nothing; with r0 = r1 = 1
  the Thumb instruction ROR r0, r1 (0x41C8) leaves r0 = 2, where the rotation of 1 to the
  right by one is 0x80000000, and then runs on into the store of case \<open>0b011\<close>.
\<close>

theorem ror_rotates_left_result:
  "cpu_process_arm_instruction h ror_state 0xE1B00161 = Some (1, ror_result) \<and>
   reg_read (registers ror_result) 0 = Some 4 \<and>
   word_rotr 2 (1 :: 32 word) = 0x40000000 \<and>
   cpu_process_arm_instruction h ror_state 0xE1B000E1 = Some (1, ror_state) \<and>
   cpu_process_thumb_instruction h thumb_ror_state 0x41C8 = Some (1, thumb_ror_result) \<and>
   reg_read (registers thumb_ror_result) 0 = Some 2 \<and>
   word_rotr 1 (1 :: 32 word) = 0x80000000"
proof -
  have "arm_data_processing h (registers ror_state) 0xE1B00161 = Some (registers ror_result)"
    by (simp add: ror_state_def ror_result_def zero_registers_def arm_data_processing_def
        field_def dp_register_operand_def dp_opcode_def register_access shr_def rotl32_def
        set_zero_negative_of_def flag_setters)
  then have arm: "cpu_process_arm_instruction h ror_state 0xE1B00161 = Some (1, ror_result)"
    by (simp add: cpu_process_arm_instruction_def cpu_check_condition_def field_def)
      (simp add: ror_state_def ror_result_def)
  have odd: "cpu_process_arm_instruction h ror_state 0xE1B000E1 = Some (1, ror_state)"
    by (simp add: cpu_process_arm_instruction_def cpu_check_condition_def field_def)
  have alu: "thumb_alu h (registers thumb_ror_state) 0x41C8 =
               Some ((registers thumb_ror_state)\<lparr>r := [2, 1, 0, 0, 0, 0, 0, 0, 0, 0, 0, 0, 0]\<rparr>)"
    by (simp add: thumb_ror_state_def zero_registers_def thumb_alu_def field_def register_access
        rotl32_def set_zero_negative_of_def flag_setters)
  have case_010: "thumb_case_010 h thumb_ror_state 0x41C8 =
               Some (thumb_ror_state\<lparr>registers :=
                 (registers thumb_ror_state)\<lparr>r := [2, 1, 0, 0, 0, 0, 0, 0, 0, 0, 0, 0, 0]\<rparr>\<rparr>)"
    by (simp add: thumb_case_010_def field_def alu)
  have store: "thumb_load_store_immediate h (thumb_ror_state\<lparr>registers :=
                 (registers thumb_ror_state)\<lparr>r := [2, 1, 0, 0, 0, 0, 0, 0, 0, 0, 0, 0, 0]\<rparr>\<rparr>) 0x41C8 =
               Some thumb_ror_result"
    by (simp add: thumb_load_store_immediate_def field_def sdt_access_def thumb_ror_state_def
        thumb_ror_result_def zero_registers_def register_access write_u32_def memory_size_def)
  have thumb: "cpu_process_thumb_instruction h thumb_ror_state 0x41C8 = Some (1, thumb_ror_result)"
    by (simp add: cpu_process_thumb_instruction_def field_def case_010 store)
  have "word_rotr 1 (1 :: 32 word) = 0x80000000" and "word_rotr 2 (1 :: 32 word) = 0x40000000"
    by code_simp+
  with arm odd thumb show ?thesis
    by (simp add: ror_result_def thumb_ror_result_def zero_registers_def register_access)
qed

text \<open>
  \<open>rotl32\<close> is the rotation to the left: for a count below 32 it agrees with
  \<open>word_rotl\<close> of the library.
\<close>

lemma low_five_bits: "unat (w AND 31) = unat w mod 32" for w :: "32 word"
proof -
  have "w AND 31 = w AND mask 5"
    by (simp add: mask_eq_exp_minus_1)
  also have "\<dots> = take_bit 5 w"
    by (simp only: take_bit_eq_mask)
  finally have "unat (w AND 31) = take_bit 5 (unat w)"
    by (simp only: unsigned_take_bit_eq)
  then show ?thesis
    by (simp only: take_bit_eq_mod) simp
qed

lemma rotation_counts:
  assumes "0 < n" and "n < 32"
  shows "unat ((of_nat n :: 32 word) AND 31) = n"
    and "unat ((- (of_nat n :: 32 word)) AND 31) = 32 - n"
proof -
  from assms have n: "unat (of_nat n :: 32 word) = n"
    by (simp add: unat_of_nat)
  with assms show "unat ((of_nat n :: 32 word) AND 31) = n"
    by (simp add: low_five_bits)
  from assms n unat_sub_if_size [of 0 "of_nat n :: 32 word"]
  have "unat (- (of_nat n :: 32 word)) = 4294967296 - n"
    by (simp add: word_size)
  moreover from assms have "4294967296 - n = 134217727 * 32 + (32 - n)"
    by simp
  then have "(4294967296 - n) mod 32 = (32 - n) mod 32"
    by (simp only: mod_mult_self3)
  with assms have "(4294967296 - n) mod 32 = 32 - n"
    by simp
  ultimately show "unat ((- (of_nat n :: 32 word)) AND 31) = 32 - n"
    by (simp only: low_five_bits)
qed

lemma rotate_left_by_shifts:
  assumes "0 < n" and "n < 32"
  shows "push_bit n x OR drop_bit (32 - n) x = word_rotl n (x :: 32 word)"
proof (rule bit_word_eqI)
  fix k
  assume k: "k < LENGTH(32)"
  show "bit (push_bit n x OR drop_bit (32 - n) x) k = bit (word_rotl n x) k"
  proof (cases "n \<le> k")
    case True
    with k assms have "(k + (32 - n)) mod 32 = k - n"
      by (simp add: mod_if)
    moreover from True k assms have "\<not> bit x (32 - n + k)"
      by (auto dest: bit_imp_le_length)
    ultimately show ?thesis
      using True k assms by (simp add: bit_simps)
  next
    case False
    with k assms have "(k + (32 - n)) mod 32 = 32 - n + k"
      by simp
    with False k assms show ?thesis
      by (simp add: bit_simps)
  qed
qed

lemma rotl32_is_rotate_left:
  assumes "n < 32"
  shows "rotl32 x (of_nat n) = word_rotl n x"
proof (cases "n = 0")
  case True
  have "word_rotl 0 x = x"
    by (rule bit_word_eqI) (simp add: bit_simps)
  with True show ?thesis
    by (simp add: rotl32_def)
next
  case False
  with assms have c: "unat ((of_nat n :: 32 word) AND 31) = n"
    and d: "unat ((- (of_nat n :: 32 word)) AND 31) = 32 - n"
    by (simp_all add: rotation_counts)
  from assms have u: "unat (of_nat n :: 32 word) = n"
    by (simp add: unat_of_nat)
  with c have e: "(of_nat n :: 32 word) AND 31 = of_nat n"
    by (simp add: word_unat_eq_iff)
  from False assms have "push_bit n x OR drop_bit (32 - n) x = word_rotl n x"
    by (simp add: rotate_left_by_shifts)
  then show ?thesis
    by (simp only: rotl32_def Let_def e u d)
qed

lemma rotl32_low_bits: "rotl32 x (c AND 31) = rotl32 x c"
  by (simp add: rotl32_def and.assoc)

lemma rotl32_rotates_left: "rotl32 x c = word_rotl (unat c mod 32) x"
proof -
  have "c AND 31 = of_nat (unat c mod 32)"
    by (simp add: word_unat_eq_iff low_five_bits unat_of_nat)
  then have "rotl32 x (c AND 31) = word_rotl (unat c mod 32) x"
    by (simp add: rotl32_is_rotate_left)
  then show ?thesis
    by (simp only: rotl32_low_bits)
qed

text \<open>
  What the ROR case of operand 2 computes for an immediate amount \<open>n\<close> from 1 to 31: the
  rotation to the left by \<open>n\<close> of the word \<open>x\<close> that the register array holds at the
  index given by the low byte of Rm's value, with bit \<open>n - 1\<close> of it as the carry.
\<close>

lemma field_five_bits: "field w sh 0x1F < 32"
proof -
  have "drop_bit sh w AND 0x1F \<le> 0x1F"
    by (rule word_and_le1)
  then show ?thesis
    by (simp add: field_def word_le_nat_alt)
qed

lemma ror_operand_rotates_left:
  assumes "field instruction 5 0x3 = 0x3" and "field instruction 4 0x1 = 0"
    and "field instruction 7 0x1F = n" and "0 < n"
    and "reg_read regs (field instruction 0 0xF) = Some v"
    and "reg_read_any h regs (unat (v AND 0xFF)) = x"
  shows "dp_register_operand h regs instruction s rd =
           Some (word_rotl n x,
                 if s \<noteq> 0 \<and> rd \<noteq> 15 then set_cpsr_carry regs (drop_bit (n - 1) x AND 0x1)
                 else regs)"
proof -
  from assms(3) field_five_bits [of instruction 7] have "n < 32"
    by simp
  with assms show ?thesis
    by (simp add: dp_register_operand_def shr_def rotl32_is_rotate_left nat_diff_distrib')
qed

text \<open>The Thumb ALU operation ROR: the rotation of \<open>r[rd]\<close> to the left by \<open>r[rs]\<close> modulo 32.\<close>

lemma thumb_ror_rotates_left:
  assumes "field instruction 6 0xF = 0x7"
    and "reg_read regs (field instruction 0 0x7) = Some d"
    and "reg_read regs (field instruction 3 0x7) = Some x"
  shows "thumb_alu h regs instruction =
           do {
             regs \<leftarrow> reg_write regs (field instruction 0 0x7) (word_rotl (unat x mod 32) d);
             set_zero_negative_of regs (field instruction 0 0x7)
           }"
  using assms by (simp add: thumb_alu_def rotl32_rotates_left Let_def)

section \<open>MSR in user mode\<close>

text \<open>
  With \<open>s = 0\<close> the shifter of operand 2 always yields a value and leaves the registers
  alone, whatever the operand register holds.
\<close>

lemma dp_register_operand_no_flags:
  "\<exists>src2. dp_register_operand h regs instruction 0 rd = Some (src2, regs)"
proof -
  from reg_read_four_bits [of regs instruction 0] obtain v where
    v: "reg_read regs (field instruction 0 0xF) = Some v" ..
  from reg_read_four_bits [of regs instruction 8] obtain vs where
    vs: "reg_read regs (field instruction 8 0xF) = Some vs" ..
  from v vs show ?thesis
    by (simp add: dp_register_operand_def Let_def)
qed

lemma msr_cpsr_user:
  assumes "field instruction 22 0x1 = 0"
    and "get_cpsr_mode (cpsr regs) = ARM_MODE_USER"
    and "reg_read regs (field instruction 0 0xF) = Some v"
  shows "dp_msr regs instruction =
           Some (regs\<lparr>cpsr := (cpsr regs AND NOT 0xF0000000) OR (v AND 0xF0000000)\<rparr>)"
  using assms by (simp add: dp_msr_def)

text \<open>
  MSR to CPSR in user mode, in either form of operand 2: the code takes the new flags
  from \<open>r[instruction & 0xF]\<close>.
\<close>

lemma arm_data_processing_msr_user:
  assumes opcode: "field instruction 21 0xF = 0x9" "field instruction 20 0x1 = 0"
    and cpsr: "field instruction 22 0x1 = 0"
    and user: "get_cpsr_mode (cpsr regs) = ARM_MODE_USER"
    and rm: "reg_read regs (field instruction 0 0xF) = Some v"
  shows "arm_data_processing h regs instruction =
           Some (regs\<lparr>cpsr := (cpsr regs AND NOT 0xF0000000) OR (v AND 0xF0000000)\<rparr>)"
proof (cases "field instruction 25 0x1 = 0")
  case True
  from dp_register_operand_no_flags [of h regs instruction "field instruction 12 0xF"]
  obtain src2 where
    "dp_register_operand h regs instruction 0 (field instruction 12 0xF) = Some (src2, regs)" ..
  with True opcode msr_cpsr_user [OF cpsr user rm] show ?thesis
    by (simp add: arm_data_processing_def Let_def dp_opcode_def)
next
  case False
  with opcode msr_cpsr_user [OF cpsr user rm] show ?thesis
    by (simp add: arm_data_processing_def Let_def dp_opcode_def)
qed

lemma cpsr_masks:
  "((k AND NOT 0xF0000000) OR (v AND 0xF0000000)) AND 0xF0000000 = v AND (0xF0000000 :: 32 word)"
  "((k AND NOT 0xF0000000) OR (v AND 0xF0000000)) AND 0x0FFFFFFF = k AND (0x0FFFFFFF :: 32 word)"
proof -
  show "((k AND NOT 0xF0000000) OR (v AND 0xF0000000)) AND 0xF0000000 = v AND (0xF0000000 :: 32 word)"
    by (simp add: bit.conj_disj_distrib2 and.assoc)
  have low: "(0x0FFFFFFF :: 32 word) = NOT 0xF0000000"
    by simp
  show "((k AND NOT 0xF0000000) OR (v AND 0xF0000000)) AND 0x0FFFFFFF = k AND (0x0FFFFFFF :: 32 word)"
    unfolding low by (simp add: bit.conj_disj_distrib2 and.assoc)
qed

text \<open>MSR CPSR, r1 is 0xE129F001; MSR CPSR_f, #0xF0000000 is 0xE328F20F.\<close>

lemma msr_cpsr_r1_decode:
  "field 0xE129F001 26 0x3 = 0" "0xE129F001 AND 0xFFFFFF0 \<noteq> (0x12FFF10 :: 32 word)"
  "field 0xE129F001 25 0x1 = 0" "field 0xE129F001 7 0x1 = 0"
  "field 0xE129F001 21 0xF = 0x9" "field 0xE129F001 20 0x1 = 0" "field 0xE129F001 22 0x1 = 0"
  "field 0xE129F001 0 0xF = 1" "cpu_check_condition k 0xE129F001"
  by (simp_all add: field_def cpu_check_condition_def)

lemma msr_cpsr_immediate_decode:
  "field 0xE328F20F 26 0x3 = 0" "0xE328F20F AND 0xFFFFFF0 \<noteq> (0x12FFF10 :: 32 word)"
  "field 0xE328F20F 25 0x1 = 1"
  "field 0xE328F20F 21 0xF = 0x9" "field 0xE328F20F 20 0x1 = 0" "field 0xE328F20F 22 0x1 = 0"
  "field 0xE328F20F 0 0xF = 15" "cpu_check_condition k 0xE328F20F"
  by (simp_all add: field_def cpu_check_condition_def)

lemma msr_cpsr_immediate_operand: "dp_immediate_operand 0xE328F20F = 0xF0000000"
  by (simp add: dp_immediate_operand_def field_def rotr32_def)

lemma msr_cpsr_r1_user:
  assumes "get_cpsr_mode k = ARM_MODE_USER"
  shows "cpu_process_arm_instruction h
           \<lparr> registers = zero_registers\<lparr>r := [0, v, 0, 0, 0, 0, 0, 0, 0, 0, 0, 0, 0], cpsr := k\<rparr>, memory = m \<rparr>
           0xE129F001 =
         Some (1, \<lparr> registers = zero_registers\<lparr>r := [0, v, 0, 0, 0, 0, 0, 0, 0, 0, 0, 0, 0],
                                                 cpsr := (k AND NOT 0xF0000000) OR (v AND 0xF0000000)\<rparr>,
                    memory = m \<rparr>)"
proof -
  have "reg_read (zero_registers\<lparr>r := [0, v, 0, 0, 0, 0, 0, 0, 0, 0, 0, 0, 0], cpsr := k\<rparr>)
          (field 0xE129F001 0 0xF) = Some v"
    by (simp add: msr_cpsr_r1_decode reg_read_def)
  with assms have
    "arm_data_processing h (zero_registers\<lparr>r := [0, v, 0, 0, 0, 0, 0, 0, 0, 0, 0, 0, 0], cpsr := k\<rparr>)
       0xE129F001 =
     Some (zero_registers\<lparr>r := [0, v, 0, 0, 0, 0, 0, 0, 0, 0, 0, 0, 0],
                           cpsr := (k AND NOT 0xF0000000) OR (v AND 0xF0000000)\<rparr>)"
    using arm_data_processing_msr_user [OF msr_cpsr_r1_decode(5-7), where h = h and v = v
        and regs = "zero_registers\<lparr>r := [0, v, 0, 0, 0, 0, 0, 0, 0, 0, 0, 0, 0], cpsr := k\<rparr>"]
    by simp
  then show ?thesis
    by (simp add: cpu_process_arm_instruction_def msr_cpsr_r1_decode)
qed

text \<open>
  The low byte of the source is no obstacle: with r1 = 0xF00000FF the shifter reads
  \<open>r[255]\<close>, behind the struct, and the instruction still sets the four flags from r1.
\<close>

lemma msr_source_byte_past_struct:
  "cpu_process_arm_instruction h msr_past_state 0xE129F001 =
     Some (1, msr_past_state\<lparr>registers := (registers msr_past_state)\<lparr>cpsr := 0xF0000010\<rparr>\<rparr>)"
proof -
  have user: "get_cpsr_mode 0x10 = ARM_MODE_USER"
    by (simp add: get_cpsr_mode_def ARM_MODE_USER_def)
  from msr_cpsr_r1_user [OF user, of h "0xF00000FF" "\<lambda>_. 0"] show ?thesis
    by (simp add: msr_past_state_def zero_registers_def)
qed

text \<open>
  Claim C8, as stated: in user mode MSR to CPSR replaces bits 31..24 of CPSR by those of
  the source operand and keeps bits 23..0.  With CPSR = 0x10 and r1 = 0x5F000000, MSR
  CPSR, r1 (0xE129F001) leaves CPSR = 0x50000010: bits 27..24 are still 0, not the 0xF of
  the source.  In the immediate form the operand is not used at all: in the same state,
  with pc = 0, MSR CPSR_f, #0xF0000000 (0xE328F20F) takes the flags from
  \<open>r[instruction & 0xF]\<close>, here \<open>r[15]\<close>, and leaves CPSR = 0x10.
\<close>

theorem msr_user_flag_field_counterexample:
  "get_cpsr_mode (cpsr (registers msr_low_state)) = ARM_MODE_USER \<and>
   reg_read (registers msr_low_state) 1 = Some 0x5F000000 \<and>
   cpu_process_arm_instruction x86_host msr_low_state 0xE129F001 =
     Some (1, msr_low_state\<lparr>registers := (registers msr_low_state)\<lparr>cpsr := 0x50000010\<rparr>\<rparr>) \<and>
   (0x50000010 :: 32 word) AND 0xFF000000 \<noteq> 0x5F000000 AND 0xFF000000 \<and>
   field 0xE328F20F 25 0x1 = 1 \<and>
   dp_immediate_operand 0xE328F20F = 0xF0000000 \<and>
   cpu_process_arm_instruction x86_host msr_low_state 0xE328F20F = Some (1, msr_low_state) \<and>
   cpsr (registers msr_low_state) AND 0xFF000000 \<noteq> 0xF0000000 AND 0xFF000000"
proof -
  have user: "get_cpsr_mode 0x10 = ARM_MODE_USER"
    by (simp add: get_cpsr_mode_def ARM_MODE_USER_def)
  have pc: "reg_read (registers msr_low_state) (field 0xE328F20F 0 0xF) = Some 0"
    by (simp add: msr_cpsr_immediate_decode msr_low_state_def zero_registers_def reg_read_def)
  have "get_cpsr_mode (cpsr (registers msr_low_state)) = ARM_MODE_USER"
    using user by (simp add: msr_low_state_def zero_registers_def)
  from arm_data_processing_msr_user [OF msr_cpsr_immediate_decode(4-6) this pc, of x86_host]
  have "arm_data_processing x86_host (registers msr_low_state) 0xE328F20F =
          Some (registers msr_low_state)"
    by (simp add: msr_low_state_def zero_registers_def)
  then have immediate:
    "cpu_process_arm_instruction x86_host msr_low_state 0xE328F20F = Some (1, msr_low_state)"
    by (simp add: cpu_process_arm_instruction_def msr_cpsr_immediate_decode)
  from msr_cpsr_r1_user [OF user, of x86_host "0x5F000000" "\<lambda>_. 0"] user immediate
    msr_cpsr_immediate_operand msr_cpsr_immediate_decode(3)
  show ?thesis
    by (simp add: msr_low_state_def zero_registers_def reg_read_def)
qed

text \<open>
  Claim C8, amended.  When an MSR instruction in register form (bit 25 clear) targeting
  CPSR executes in user mode, only the condition flags, bits 31..28 of CPSR, are replaced
  by the corresponding bits of the source operand, the value \<open>v\<close> of register Rm; bits
  27..0 of CPSR, and everything else in the state, are unchanged.  The instruction is
  one that the code takes to the data-processing case (type 0, not BX, bit 7 clear) with
  opcode \<open>0b1001\<close>, \<open>s = 0\<close> and bit 22 clear; it always returns, with the value 1.
\<close>

theorem msr_user_condition_flags_only:
  assumes "cpu_check_condition (cpsr (registers c)) instruction"
    and "field instruction 26 0x3 = 0"
    and "instruction AND 0xFFFFFF0 \<noteq> 0x12FFF10"
    and "field instruction 25 0x1 = 0"
    and "field instruction 7 0x1 = 0"
    and "field instruction 21 0xF = 0x9"
    and "field instruction 20 0x1 = 0"
    and "field instruction 22 0x1 = 0"
    and "get_cpsr_mode (cpsr (registers c)) = ARM_MODE_USER"
  shows "\<exists>v c'. reg_read (registers c) (field instruction 0 0xF) = Some v \<and>
           cpu_process_arm_instruction h c instruction = Some (1, c') \<and>
           c' = c\<lparr>registers := (registers c)\<lparr>cpsr := (cpsr (registers c) AND NOT 0xF0000000)
                                                       OR (v AND 0xF0000000)\<rparr>\<rparr> \<and>
           cpsr (registers c') AND 0xF0000000 = v AND 0xF0000000 \<and>
           cpsr (registers c') AND 0x0FFFFFFF = cpsr (registers c) AND 0x0FFFFFFF"
proof -
  from reg_read_four_bits [of "registers c" instruction 0] obtain v where
    rm: "reg_read (registers c) (field instruction 0 0xF) = Some v" ..
  from arm_data_processing_msr_user [OF assms(6-9) rm, of h] assms(1-5)
  have "cpu_process_arm_instruction h c instruction =
          Some (1, c\<lparr>registers := (registers c)\<lparr>cpsr := (cpsr (registers c) AND NOT 0xF0000000)
                                                            OR (v AND 0xF0000000)\<rparr>\<rparr>)"
    by (simp add: cpu_process_arm_instruction_def)
  with rm cpsr_masks [of "cpsr (registers c)" v] show ?thesis
    by simp
qed

theorem msr_user_condition_flags_only_witness:
  "cpu_check_condition (cpsr (registers msr_state)) 0xE129F001 \<and>
   field 0xE129F001 26 0x3 = 0 \<and>
   0xE129F001 AND 0xFFFFFF0 \<noteq> (0x12FFF10 :: 32 word) \<and>
   field 0xE129F001 25 0x1 = 0 \<and>
   field 0xE129F001 7 0x1 = 0 \<and>
   field 0xE129F001 21 0xF = 0x9 \<and>
   field 0xE129F001 20 0x1 = 0 \<and>
   field 0xE129F001 22 0x1 = 0 \<and>
   get_cpsr_mode (cpsr (registers msr_state)) = ARM_MODE_USER \<and>
   reg_read (registers msr_state) (field 0xE129F001 0 0xF) = Some 0xF0000000 \<and>
   cpu_process_arm_instruction x86_host msr_state 0xE129F001 =
     Some (1, msr_state\<lparr>registers := (registers msr_state)\<lparr>cpsr := 0xF0000010\<rparr>\<rparr>) \<and>
   (0xF0000010 :: 32 word) AND 0xF0000000 = 0xF0000000 AND 0xF0000000 \<and>
   (0xF0000010 :: 32 word) AND 0x0FFFFFFF = cpsr (registers msr_state) AND 0x0FFFFFFF"
proof -
  have user: "get_cpsr_mode (cpsr (registers msr_state)) = ARM_MODE_USER"
    by (simp add: get_cpsr_mode_def ARM_MODE_USER_def msr_state_def zero_registers_def)
  have rm: "reg_read (registers msr_state) (field 0xE129F001 0 0xF) = Some 0xF0000000"
    by (simp add: msr_cpsr_r1_decode msr_state_def zero_registers_def reg_read_def)
  from msr_user_condition_flags_only
    [OF msr_cpsr_r1_decode(9) msr_cpsr_r1_decode(1-7) user, of x86_host]
  have "cpu_process_arm_instruction x86_host msr_state 0xE129F001 =
          Some (1, msr_state\<lparr>registers := (registers msr_state)\<lparr>cpsr :=
            (cpsr (registers msr_state) AND NOT 0xF0000000) OR (0xF0000000 AND 0xF0000000)\<rparr>\<rparr>)"
    using rm by auto
  then have "cpu_process_arm_instruction x86_host msr_state 0xE129F001 =
          Some (1, msr_state\<lparr>registers := (registers msr_state)\<lparr>cpsr := 0xF0000010\<rparr>\<rparr>)"
    by (simp add: msr_state_def zero_registers_def)
  with msr_cpsr_r1_decode user rm show ?thesis
    by (simp add: msr_state_def zero_registers_def)
qed

section \<open>The start of \<open>cpu_run\<close>\<close>

text \<open>
  Claim C9, as stated: the first instruction is fetched at the PC the host provided, under
  the CPSR it provided, and the registers it seeded survive into the first turn.  In
  \<open>seeded\<close> the host provided PC = 8, CPSR = 0x13, SP = 0x03007F00 and r0 = 5; the loop
  starts with none of them.
\<close>

theorem cpu_run_keeps_entry_state_counterexample:
  "pc (registers (cpu_run_init seeded)) \<noteq> pc (registers seeded) \<and>
   cpsr (registers (cpu_run_init seeded)) \<noteq> cpsr (registers seeded) \<and>
   sp (registers (cpu_run_init seeded)) \<noteq> sp (registers seeded) \<and>
   reg_read (registers (cpu_run_init seeded)) 0 \<noteq> reg_read (registers seeded) 0"
  by (simp add: cpu_run_init_def seeded_def register_access)

text \<open>
  Claim C9, amended.  \<open>cpu_run\<close> takes only the memory from its caller: it clears every
  register, sets CPSR to 0x30 (bit 5 and user mode) and starts the loop there, so the
  first instruction is the 32-bit word at address 0, handed to the ARM executor, with all
  general registers, SP, LR and SPSR zero.
\<close>

theorem cpu_run_starts_from_reset:
  "cpu_run_init c = \<lparr> registers = reset_registers, memory = memory c \<rparr> \<and>
   cpu_run h fuel c = cpu_run_loop h fuel \<lparr> registers = reset_registers, memory = memory c \<rparr> \<and>
   cpu_run_dispatch h (cpu_run_init c) =
     do {
       instruction \<leftarrow> read_u32 (memory c) 0;
       (ret, c') \<leftarrow> cpu_process_arm_instruction h \<lparr> registers = reset_registers, memory = memory c \<rparr>
                      instruction;
       if ret = 0 then Some (Return 1 c')
       else Some (Next (c'\<lparr>registers := (registers c')\<lparr>pc := pc (registers c') + 4\<rparr>\<rparr>))
     }"
proof -
  have init: "cpu_run_init c = \<lparr> registers = reset_registers, memory = memory c \<rparr>"
    by (simp add: cpu_run_init_def reset_registers_def zero_registers_def numeral_eq_Suc)
  have "cpsr reset_registers AND 0x20 \<noteq> 0" and "pc reset_registers = 0"
    by (simp_all add: reset_registers_def zero_registers_def)
  then show ?thesis
    by (simp add: cpu_run_def init cpu_run_dispatch_def cpu_run_arm_def)
qed

section \<open>The condition field\<close>

text \<open>
  Claim C10.  For every state and every ARM instruction whose condition field evaluates to
  false against the current CPSR, \<open>cpu_process_arm_instruction\<close> returns 1 and leaves the
  whole state as it was: registers, SP, LR, PC, CPSR, SPSR and memory.
\<close>

theorem arm_condition_false_unchanged:
  "\<not> cpu_check_condition (cpsr (registers c)) instruction \<Longrightarrow>
   cpu_process_arm_instruction h c instruction = Some (1, c)"
  by (simp add: cpu_process_arm_instruction_def)

text \<open>MOVEQ r0, #1 with the Z flag clear.\<close>

theorem arm_condition_false_unchanged_witness:
  "\<not> cpu_check_condition (cpsr (registers idle_arm)) 0x03A00001 \<and>
   cpu_process_arm_instruction x86_host idle_arm 0x03A00001 = Some (1, idle_arm)"
proof -
  have f: "\<not> cpu_check_condition (cpsr (registers idle_arm)) 0x03A00001"
    by (simp add: cpu_check_condition_def example_states field_def flag_getters)
  from arm_condition_false_unchanged [OF f] f show ?thesis by simp
qed

end
